theory Spec2Isabelle
  imports Main "HOL-Library.AList"
begin

section \<open>Python values and the builtins the page pipeline relies on\<close>

text \<open>
  The development embeds \<^verbatim>\<open>src/dist/main.py\<close>. A string is the list of its bytes in
  UTF-8, which for ASCII text are its characters. The builtins of Python that the coercion of query values calls, \<^verbatim>\<open>int\<close>, \<^verbatim>\<open>float\<close>,
  \<^verbatim>\<open>str.strip\<close> and \<^verbatim>\<open>str.lower\<close>, are parameters of the model, so that nothing is
  assumed about which characters are whitespace, digits or letters with case. Python floats
  are kept abstract: the type parameter \<open>'f\<close> stands for them.
\<close>

datatype error = ValueError | IndexError | AttributeError string | AssertionError | OtherError string

type_synonym headers = "(string \<times> string) list"

text \<open>The ASGI connection scope, with the fields of it that \<^verbatim>\<open>Request\<close> exposes to the code.
  \<open>session\<close> is \<open>None\<close> while no session layer has put \<^verbatim>\<open>scope["session"]\<close> in place.\<close>

record scope =
  stype :: string
  http_method :: string
  path :: string
  req_headers :: headers
  query_params :: "(string \<times> string) list"
  path_params :: "(string \<times> string) list"
  session :: "(string \<times> string) list option"

text \<open>A response object as Starlette keeps it: status, raw headers (lower-case names) and
  the body, one string per body message it sends.\<close>

record response =
  status_code :: nat
  raw_headers :: headers
  body :: "string list"

datatype 'f pyval =
    PyNone
  | PyBool bool
  | PyInt int
  | PyFloat 'f
  | PyStr string
  | PyTuple "'f pyval list"
  | PyList "'f pyval list"
  | PyDict "(string \<times> 'f pyval) list"
  | PyResponse response
  | PyGenerator "string list"
  | PyAsyncGen "string list"
  | PyRequest scope
  | PyObject string

subsection \<open>Builtins\<close>

text \<open>The names of HTTP headers are ASCII, and Starlette looks a header up by its
  lower-cased name: \<open>lower\<close> maps the capital letters of ASCII to the small ones.\<close>

definition lower_char :: "char \<Rightarrow> char" where
  "lower_char c = (let n = (of_char c :: nat) in if 65 \<le> n \<and> n \<le> 90 then char_of (n + 32) else c)"

definition lower :: "string \<Rightarrow> string" where
  "lower s = map lower_char s"

text \<open>The builtins applied to a query value: \<open>py_int\<close> is \<^verbatim>\<open>int(value)\<close> and \<open>py_float\<close> is
  \<^verbatim>\<open>float(value)\<close>, each \<open>None\<close> where Python raises \<^verbatim>\<open>ValueError\<close>; \<open>py_strip\<close> is
  \<^verbatim>\<open>value.strip()\<close> and \<open>py_lower\<close> is \<^verbatim>\<open>value.lower()\<close>.\<close>

record 'f py_builtins =
  py_int :: "string \<Rightarrow> int option"
  py_float :: "string \<Rightarrow> 'f option"
  py_strip :: "string \<Rightarrow> string"
  py_lower :: "string \<Rightarrow> string"

section \<open>Query parameter coercion\<close>

text \<open>Annotations of a page function's parameters. \<open>AnnEmpty\<close> is \<^verbatim>\<open>inspect._empty\<close>,
  \<open>AnnList (Some T)\<close> is \<^verbatim>\<open>list[T]\<close>, \<open>AnnList None\<close> is \<^verbatim>\<open>typing.List\<close> without argument
  (both have origin \<^verbatim>\<open>list\<close>), \<open>AnnUnion\<close> is \<^verbatim>\<open>typing.Union\<close> with its arguments, so
  \<^verbatim>\<open>Optional[T]\<close> is \<open>AnnUnion [T, AnnNoneType]\<close>; \<open>AnnOther\<close> is any other annotation, by
  its name. The class \<^verbatim>\<open>list\<close> itself is one of these, \<open>AnnOther ''list''\<close>: \<^verbatim>\<open>get_origin(list)\<close>
  is \<^verbatim>\<open>None\<close>. So is a union written \<^verbatim>\<open>X | None\<close> wherever \<^verbatim>\<open>get_origin\<close> gives
  \<^verbatim>\<open>types.UnionType\<close> for it and not \<^verbatim>\<open>typing.Union\<close>.\<close>

datatype annotation =
    AnnEmpty | AnnStr | AnnAny | AnnInt | AnnFloat | AnnBool | AnnNoneType
  | AnnList "annotation option"
  | AnnUnion "annotation list"
  | AnnOther string

fun unwrap_optional :: "annotation \<Rightarrow> annotation" where
  "unwrap_optional (AnnUnion as) =
     (let args = filter (\<lambda>a. a \<noteq> AnnNoneType) as
      in (case args of [a] \<Rightarrow> a | _ \<Rightarrow> AnnUnion as))"
| "unwrap_optional annotation = annotation"

definition true_words :: "string list" where
  "true_words = [''1'', ''true'', ''t'', ''yes'', ''y'', ''on'']"

definition false_words :: "string list" where
  "false_words = [''0'', ''false'', ''f'', ''no'', ''n'', ''off'']"

text \<open>The body of the \<^verbatim>\<open>try\<close> block of \<^verbatim>\<open>_coerce_scalar\<close>; \<open>Inl\<close> is a raised exception.\<close>

definition coerce_scalar_try :: "'f py_builtins \<Rightarrow> string \<Rightarrow> annotation \<Rightarrow> error + 'f pyval" where
  "coerce_scalar_try b v ann =
     (if ann = AnnEmpty \<or> ann = AnnStr \<or> ann = AnnAny then Inr (PyStr v)
      else if ann = AnnInt then
        (case py_int b v of None \<Rightarrow> Inl ValueError | Some n \<Rightarrow> Inr (PyInt n))
      else if ann = AnnFloat then
        (case py_float b v of None \<Rightarrow> Inl ValueError | Some x \<Rightarrow> Inr (PyFloat x))
      else if ann = AnnBool then
        (let w = py_lower b (py_strip b v)
         in if w \<in> set true_words then Inr (PyBool True)
            else if w \<in> set false_words then Inr (PyBool False)
            else Inr (PyBool (v \<noteq> [])))
      else Inr (PyStr v))"

text \<open>\<^verbatim>\<open>_coerce_scalar\<close>: \<^verbatim>\<open>except Exception: return value\<close> turns every exception of the
  \<^verbatim>\<open>try\<close> block into the original string.\<close>

definition coerce_scalar :: "'f py_builtins \<Rightarrow> string option \<Rightarrow> annotation \<Rightarrow> error + 'f pyval" where
  "coerce_scalar b val annotation =
     (case val of
        None \<Rightarrow> Inr PyNone
      | Some v \<Rightarrow>
          (let ann = unwrap_optional annotation
           in (case coerce_scalar_try b v ann of
                 Inl e \<Rightarrow> Inr (PyStr v)
               | Inr r \<Rightarrow> Inr r)))"

text \<open>Starlette's multi-valued query mapping: \<^verbatim>\<open>getlist\<close> gives every value of a key in
  order, \<^verbatim>\<open>get\<close> the value the underlying dict keeps, which is the last one.\<close>

definition getlist :: "(string \<times> string) list \<Rightarrow> string \<Rightarrow> string list" where
  "getlist qs name = map snd (filter (\<lambda>kv. fst kv = name) qs)"

definition qp_get :: "(string \<times> string) list \<Rightarrow> string \<Rightarrow> string option" where
  "qp_get qs name = (case getlist qs name of [] \<Rightarrow> None | vs \<Rightarrow> Some (last vs))"

text \<open>A list comprehension whose element expression may raise stops at the first exception.\<close>

fun comprehension :: "('a \<Rightarrow> error + 'b) \<Rightarrow> 'a list \<Rightarrow> error + 'b list" where
  "comprehension f [] = Inr []"
| "comprehension f (x # xs) =
     (case f x of
        Inl e \<Rightarrow> Inl e
      | Inr y \<Rightarrow> (case comprehension f xs of Inl e \<Rightarrow> Inl e | Inr ys \<Rightarrow> Inr (y # ys)))"

fun is_list_origin :: "annotation \<Rightarrow> bool" where
  "is_list_origin (AnnList _) = True"
| "is_list_origin _ = False"

fun list_inner :: "annotation \<Rightarrow> annotation" where
  "list_inner (AnnList (Some t)) = t"
| "list_inner _ = AnnStr"

definition coerce_query_param :: "'f py_builtins \<Rightarrow> scope \<Rightarrow> string \<Rightarrow> annotation \<Rightarrow> error + 'f pyval" where
  "coerce_query_param b request name ann =
     (if is_list_origin ann then
        (let inner = list_inner ann; values = getlist (query_params request) name
         in map_sum id PyList (comprehension (\<lambda>v. coerce_scalar b (Some v) inner) values))
      else
        (let unwrapped = unwrap_optional ann
         in if is_list_origin unwrapped then
              (let inner = list_inner unwrapped; values = getlist (query_params request) name
               in map_sum id PyList (comprehension (\<lambda>v. coerce_scalar b (Some v) inner) values))
            else coerce_scalar b (qp_get (query_params request) name) ann))"

section \<open>Responses and ASGI messages\<close>

fun digits :: "nat \<Rightarrow> string" where
  "digits n = (if n < 10 then [char_of (48 + n)] else digits (n div 10) @ [char_of (48 + n mod 10)])"

definition hex_digit :: "nat \<Rightarrow> char" where
  "hex_digit n = (if n < 10 then char_of (48 + n) else char_of (55 + n))"

text \<open>\<^verbatim>\<open>urllib.parse.quote\<close> with the safe set that \<^verbatim>\<open>RedirectResponse\<close> passes.\<close>

definition quote_char :: "char \<Rightarrow> string" where
  "quote_char c =
     (let n = (of_char c :: nat)
      in if (48 \<le> n \<and> n \<le> 57) \<or> (65 \<le> n \<and> n \<le> 90) \<or> (97 \<le> n \<and> n \<le> 122)
            \<or> c \<in> set ''_.-~:/%#?=@[]!$&()*+,;'' \<or> n = 39
         then [c] else [CHR ''%'', hex_digit (n div 16), hex_digit (n mod 16)])"

definition quote :: "string \<Rightarrow> string" where
  "quote s = concat (map quote_char s)"

text \<open>Starlette's \<^verbatim>\<open>HTMLResponse(content, status_code)\<close> and \<^verbatim>\<open>RedirectResponse(url, status_code)\<close>
  with the headers their constructors fill in, and \<^verbatim>\<open>response.headers[key] = value\<close>.\<close>

definition HTMLResponse :: "string \<Rightarrow> nat \<Rightarrow> response" where
  "HTMLResponse content status =
     \<lparr>status_code = status,
      raw_headers = [(''content-length'', digits (length content)),
                     (''content-type'', ''text/html; charset=utf-8'')],
      body = [content]\<rparr>"

definition RedirectResponse :: "string \<Rightarrow> nat \<Rightarrow> response" where
  "RedirectResponse url status =
     \<lparr>status_code = status,
      raw_headers = [(''content-length'', ''0''), (''location'', quote url)],
      body = [[]]\<rparr>"

fun replace_header :: "string \<Rightarrow> string \<Rightarrow> headers \<Rightarrow> headers" where
  "replace_header k v [] = []"
| "replace_header k v (h # hs) =
     (if fst h = k then (k, v) # filter (\<lambda>x. fst x \<noteq> k) hs else h # replace_header k v hs)"

definition set_header :: "string \<Rightarrow> string \<Rightarrow> response \<Rightarrow> response" where
  "set_header key val r =
     (let k = lower key
      in if k \<in> fst ` set (raw_headers r)
         then r\<lparr>raw_headers := replace_header k val (raw_headers r)\<rparr>
         else r\<lparr>raw_headers := raw_headers r @ [(k, val)]\<rparr>)"

definition headers_get :: "headers \<Rightarrow> string \<Rightarrow> string option" where
  "headers_get hs key = map_of hs (lower key)"

text \<open>An ASGI message: its \<^verbatim>\<open>type\<close>, its \<^verbatim>\<open>headers\<close> entry when it has one, and the status
  and body it carries.\<close>

record message =
  mtype :: string
  mheaders :: "headers option"
  mstatus :: nat
  mbody :: string

text \<open>What a call of an ASGI application leaves behind: the messages it sent, the exception
  it raised if any, and the session mapping of the scope when it returned.\<close>

record outcome =
  sent :: "message list"
  raised :: "error option"
  session_out :: "(string \<times> string) list option"

type_synonym asgi_app = "scope \<Rightarrow> outcome"

definition response_messages :: "response \<Rightarrow> message list" where
  "response_messages r =
     \<lparr>mtype = ''http.response.start'', mheaders = Some (raw_headers r),
      mstatus = status_code r, mbody = []\<rparr>
     # map (\<lambda>b. \<lparr>mtype = ''http.response.body'', mheaders = None,
                  mstatus = status_code r, mbody = b\<rparr>) (body r)"

text \<open>\<^verbatim>\<open>await response(scope, receive, send)\<close>\<close>

definition respond :: "response \<Rightarrow> asgi_app" where
  "respond r scope = \<lparr>sent = response_messages r, raised = None, session_out = session scope\<rparr>"

definition raise :: "error \<Rightarrow> asgi_app" where
  "raise e scope = \<lparr>sent = [], raised = Some e, session_out = session scope\<rparr>"

section \<open>The middleware classes\<close>

subsection \<open>\<^verbatim>\<open>CSRFMiddleware\<close>\<close>

text \<open>Lines 168 to 171: the token of the session, or a new one stored in it. \<open>token_hex\<close> is
  the value \<^verbatim>\<open>secrets.token_hex(32)\<close> would return.\<close>

definition ensure_csrf_token :: "string \<Rightarrow> (string \<times> string) list \<Rightarrow> string \<times> (string \<times> string) list" where
  "ensure_csrf_token token_hex sess =
     (case map_of sess ''csrf_token'' of
        None \<Rightarrow> (token_hex, AList.update ''csrf_token'' token_hex sess)
      | Some t \<Rightarrow>
          if t = [] then (token_hex, AList.update ''csrf_token'' token_hex sess)
          else (t, sess))"

definition send_wrapper :: "bool \<Rightarrow> string \<Rightarrow> message \<Rightarrow> message" where
  "send_wrapper is_production csrf_token msg =
     (if mtype msg = ''http.response.start'' then
        (let cookie_value = ''pp_csrf='' @ csrf_token @ ''; Path=/; SameSite=Lax'';
             cookie_value = (if is_production then cookie_value @ ''; Secure'' else cookie_value);
             new_headers = (case mheaders msg of None \<Rightarrow> [] | Some hs \<Rightarrow> hs)
                           @ [(''set-cookie'', cookie_value)]
         in msg\<lparr>mheaders := Some new_headers\<rparr>)
      else msg)"

definition CSRFMiddleware_call :: "bool \<Rightarrow> string \<Rightarrow> asgi_app \<Rightarrow> asgi_app" where
  "CSRFMiddleware_call is_production token_hex app scope =
     (if stype scope \<noteq> ''http'' then app scope
      else
        (case session scope of
           None \<Rightarrow> raise AssertionError scope
         | Some sess \<Rightarrow>
             (let tok = ensure_csrf_token token_hex sess;
                  inner = app (scope\<lparr>session := Some (snd tok)\<rparr>)
              in inner\<lparr>sent := map (send_wrapper is_production (fst tok)) (sent inner)\<rparr>)))"

subsection \<open>\<^verbatim>\<open>AuthMiddleware\<close>\<close>

text \<open>The \<^verbatim>\<open>Auth\<close> instance of \<^verbatim>\<open>casp.auth\<close>, by the methods and settings the middleware
  reads. \<open>auth_providers\<close> is the result of running the registered providers (\<open>None\<close> when
  it is falsy), \<open>has_providers\<close> says that the provider list is not empty.\<close>

record auth_inst =
  has_providers :: bool
  auth_providers :: "scope \<Rightarrow> response option"
  is_public_route :: "string \<Rightarrow> bool"
  is_auth_route :: "string \<Rightarrow> bool"
  is_private_route :: "string \<Rightarrow> bool"
  is_authenticated :: "scope \<Rightarrow> bool"
  default_signin_redirect :: string
  is_role_based :: bool
  get_required_roles :: "string \<Rightarrow> string list"
  check_role :: "scope \<Rightarrow> string list \<Rightarrow> bool"
  on_auth_failure :: "(scope \<Rightarrow> response) option"

definition startswith :: "string \<Rightarrow> string \<Rightarrow> bool" where
  "startswith s p = (take (length p) s = p)"

definition static_prefixes :: "string list" where
  "static_prefixes = [''/css/'', ''/js/'', ''/assets/'', ''/favicon.ico'']"

text \<open>Lines 209 to 240: the route checks, reached when no provider response ended the call.\<close>

definition route_checks :: "auth_inst \<Rightarrow> asgi_app \<Rightarrow> asgi_app" where
  "route_checks auth app scope =
     (if is_public_route auth (path scope) then app scope
      else if is_auth_route auth (path scope) then
        (if is_authenticated auth scope
         then respond (RedirectResponse (default_signin_redirect auth) 303) scope
         else app scope)
      else if is_role_based auth \<and> get_required_roles auth (path scope) \<noteq> []
              \<and> \<not> is_authenticated auth scope then
        respond (RedirectResponse (''/signin?next='' @ path scope) 303) scope
      else if is_role_based auth \<and> get_required_roles auth (path scope) \<noteq> []
              \<and> \<not> check_role auth scope (get_required_roles auth (path scope)) then
        respond (RedirectResponse ''/unauthorized'' 303) scope
      else if is_private_route auth (path scope) \<and> \<not> is_authenticated auth scope then
        (case on_auth_failure auth of
           Some handler \<Rightarrow> respond (handler scope) scope
         | None \<Rightarrow> respond (RedirectResponse (''/signin?next='' @ path scope) 303) scope)
      else app scope)"

definition AuthMiddleware_call :: "auth_inst \<Rightarrow> asgi_app \<Rightarrow> asgi_app" where
  "AuthMiddleware_call auth app scope =
     (if stype scope \<noteq> ''http'' then app scope
      else if \<exists>p \<in> set static_prefixes. startswith (path scope) p then app scope
      else
        (case (if has_providers auth then auth_providers auth scope else None) of
           Some oauth_response \<Rightarrow> respond oauth_response scope
         | None \<Rightarrow> route_checks auth app scope))"

subsection \<open>\<^verbatim>\<open>RPCMiddleware\<close>\<close>

text \<open>\<open>handle_rpc_request\<close> is \<^verbatim>\<open>casp.rpc._handle_rpc_request\<close>, given the request and the
  copy of the session. Reading \<^verbatim>\<open>request.session\<close> without a session in the scope fails
  Starlette's assertion, which \<^verbatim>\<open>hasattr\<close> does not catch.\<close>

definition RPCMiddleware_call ::
  "(scope \<Rightarrow> (string \<times> string) list \<Rightarrow> error + response) \<Rightarrow> asgi_app \<Rightarrow> asgi_app" where
  "RPCMiddleware_call handle_rpc_request app scope =
     (if stype scope \<noteq> ''http'' then app scope
      else if headers_get (req_headers scope) ''X-PP-RPC'' = Some ''true'' \<and> http_method scope = ''POST'' then
        (case session scope of
           None \<Rightarrow> raise AssertionError scope
         | Some sess \<Rightarrow>
             (case handle_rpc_request scope sess of
                Inl e \<Rightarrow> raise e scope
              | Inr r \<Rightarrow> respond r scope))
      else app scope)"

subsection \<open>Registration\<close>

text \<open>Starlette's \<^verbatim>\<open>add_middleware\<close> puts the class at the front of the list of user
  middleware, and the stack is built from the back of that list, so that its first entry
  wraps all the others (lines 551 to 565). \<open>session_middleware\<close> is Starlette's
  \<^verbatim>\<open>SessionMiddleware\<close>.\<close>

datatype middleware_cls = RPCMiddleware | AuthMiddleware | CSRFMiddleware | SessionMiddleware

record stack_env =
  IS_PRODUCTION :: bool
  token_hex :: string
  auth :: auth_inst
  handle_rpc_request :: "scope \<Rightarrow> (string \<times> string) list \<Rightarrow> error + response"
  session_middleware :: "asgi_app \<Rightarrow> asgi_app"

definition add_middleware :: "middleware_cls \<Rightarrow> middleware_cls list \<Rightarrow> middleware_cls list" where
  "add_middleware cls user_middleware = cls # user_middleware"

definition user_middleware :: "middleware_cls list" where
  "user_middleware =
     add_middleware SessionMiddleware
       (add_middleware CSRFMiddleware
         (add_middleware AuthMiddleware
           (add_middleware RPCMiddleware [])))"

fun instantiate :: "stack_env \<Rightarrow> middleware_cls \<Rightarrow> asgi_app \<Rightarrow> asgi_app" where
  "instantiate env RPCMiddleware app = RPCMiddleware_call (handle_rpc_request env) app"
| "instantiate env AuthMiddleware app = AuthMiddleware_call (auth env) app"
| "instantiate env CSRFMiddleware app = CSRFMiddleware_call (IS_PRODUCTION env) (token_hex env) app"
| "instantiate env SessionMiddleware app = session_middleware env app"

definition build_middleware_stack :: "stack_env \<Rightarrow> middleware_cls list \<Rightarrow> asgi_app \<Rightarrow> asgi_app" where
  "build_middleware_stack env middleware router = foldr (instantiate env) middleware router"

section \<open>Page routes\<close>

datatype param_kind =
  POSITIONAL_ONLY | POSITIONAL_OR_KEYWORD | VAR_POSITIONAL | KEYWORD_ONLY | VAR_KEYWORD

record param =
  p_kind :: param_kind
  p_annotation :: annotation

record page_metadata =
  title :: "string option"
  description :: "string option"
  extra :: "(string \<times> string) list"

text \<open>The \<^verbatim>\<open>cache_settings\<close> object of a page module: \<open>enabled\<close> is \<open>Some b\<close> when the
  attribute is the boolean \<open>b\<close>, \<open>None\<close> for any other value; \<open>ttl\<close> is an integer.\<close>

record cache_settings_obj =
  enabled :: "bool option"
  ttl :: int

text \<open>One run of a page function: what it returned or raised, and the metadata it left in
  \<^verbatim>\<open>_runtime_metadata\<close>, which \<^verbatim>\<open>make_handler\<close> resets to \<^verbatim>\<open>None\<close> before.\<close>

record 'f page_run =
  returned :: "error + 'f pyval"
  runtime_metadata :: "page_metadata option"

record 'f page_fn =
  parameters :: "(string \<times> param) list"
  call :: "'f pyval list \<Rightarrow> (string \<times> 'f pyval) list \<Rightarrow> 'f page_run"

text \<open>A loaded route module: \<open>page\<close> is \<open>None\<close> when the module has no attribute of that
  name, \<open>cache_settings\<close> and \<open>metadata\<close> are \<open>None\<close> when absent or falsy.\<close>

record 'f module =
  page :: "'f page_fn option"
  cache_settings :: "cache_settings_obj option"
  metadata :: "page_metadata option"

record 'f render_args =
  children :: string
  route_dir :: string
  page_metadata_arg :: "(string \<times> string) list"
  page_layout_props :: "(string \<times> 'f pyval) list option"
  context_data :: "(string \<times> 'f pyval) list"

text \<open>The configuration and the collaborators of \<^verbatim>\<open>casp\<close> that \<^verbatim>\<open>make_handler\<close> calls,
  with Python's \<^verbatim>\<open>str\<close> and \<^verbatim>\<open>os.path.dirname\<close> and the builtins of the coercion. \<open>serve_cache\<close> is \<open>None\<close>
  when \<^verbatim>\<open>CacheHandler.serve_cache\<close> returns \<^verbatim>\<open>None\<close>.\<close>

record 'f handler_env =
  CACHE_ENABLED :: bool
  DEFAULT_TTL :: int
  serve_cache :: "string \<Rightarrow> int \<Rightarrow> string option"
  load_route_module :: "string \<Rightarrow> error + 'f module"
  load_template_file :: "string \<Rightarrow> error + string"
  transform_components :: "string \<Rightarrow> string \<Rightarrow> error + string"
  render_with_nested_layouts :: "'f render_args \<Rightarrow> error + string \<times> string"
  transform_scripts :: "string \<Rightarrow> error + string"
  dirname :: "string \<Rightarrow> string"
  str_of :: "'f pyval \<Rightarrow> string"
  builtins :: "'f py_builtins"
  SSE :: "'f pyval \<Rightarrow> response"

datatype 'f effect =
    LoadModule string
  | CallPage "'f pyval list" "(string \<times> 'f pyval) list"
  | SaveCache string string int

definition endswith :: "string \<Rightarrow> string \<Rightarrow> bool" where
  "endswith s p = (length p \<le> length s \<and> drop (length s - length p) s = p)"

definition dict_update :: "('k \<times> 'v) list \<Rightarrow> ('k \<times> 'v) list \<Rightarrow> ('k \<times> 'v) list" where
  "dict_update d other = foldl (\<lambda>acc kv. AList.update (fst kv) (snd kv) acc) d other"

text \<open>Lines 392 to 401: the loop over the parameters of the page function.\<close>

fun bind_query ::
  "'f py_builtins \<Rightarrow> scope \<Rightarrow> (string \<times> param) list \<Rightarrow> (string \<times> 'f pyval) list
     \<Rightarrow> error + (string \<times> 'f pyval) list" where
  "bind_query b request [] call_kwargs = Inr call_kwargs"
| "bind_query b request (np # ps) call_kwargs =
     (if fst np \<in> fst ` set call_kwargs then bind_query b request ps call_kwargs
      else if fst np = ''kwargs'' then bind_query b request ps call_kwargs
      else if p_kind (snd np) = VAR_POSITIONAL \<or> p_kind (snd np) = VAR_KEYWORD
        then bind_query b request ps call_kwargs
      else if fst np \<in> fst ` set (query_params request) then
        (case coerce_query_param b request (fst np) (p_annotation (snd np)) of
           Inl e \<Rightarrow> Inl e
         | Inr v \<Rightarrow> bind_query b request ps (call_kwargs @ [(fst np, v)]))
      else bind_query b request ps call_kwargs)"

text \<open>Lines 408 to 424: what becomes of the value the page function returned. \<open>Return\<close> is
  the early \<^verbatim>\<open>return\<close> of a response, \<open>Rendered\<close> carries \<^verbatim>\<open>content\<close> and
  \<^verbatim>\<open>page_layout_props\<close>; \<^verbatim>\<open>result[0]\<close> of an empty tuple raises.\<close>

datatype 'f page_phase = Return response | Rendered string "(string \<times> 'f pyval) list"

fun page_result :: "('f pyval \<Rightarrow> string) \<Rightarrow> ('f pyval \<Rightarrow> response) \<Rightarrow> 'f pyval \<Rightarrow> error + 'f page_phase" where
  "page_result str sse (PyResponse r) = Inr (Return r)"
| "page_result str sse (PyGenerator g) = Inr (Return (sse (PyGenerator g)))"
| "page_result str sse (PyAsyncGen g) = Inr (Return (sse (PyAsyncGen g)))"
| "page_result str sse (PyTuple []) = Inl IndexError"
| "page_result str sse (PyTuple (v # PyDict d # vs)) = Inr (Rendered (str v) d)"
| "page_result str sse (PyTuple (v # vs)) = Inr (Rendered (str v) [])"
| "page_result str sse result = Inr (Rendered (str result) [])"

definition extract_meta :: "page_metadata option \<Rightarrow> (string \<times> string) list" where
  "extract_meta obj =
     (case obj of
        None \<Rightarrow> []
      | Some m \<Rightarrow>
          (let d = [];
               d = (case title m of None \<Rightarrow> d
                    | Some t \<Rightarrow> if t = [] then d else AList.update ''title'' t d);
               d = (case description m of None \<Rightarrow> d
                    | Some t \<Rightarrow> if t = [] then d else AList.update ''description'' t d)
           in dict_update d (extra m)))"

text \<open>The local state of \<^verbatim>\<open>make_handler\<close> at line 446.\<close>

record 'f page_state =
  content :: string
  layout_props :: "(string \<times> 'f pyval) list"
  meta :: "(string \<times> string) list"
  req_should_cache :: "bool option"
  req_cache_ttl :: int

definition path_kwargs :: "scope \<Rightarrow> (string \<times> 'f pyval) list" where
  "path_kwargs request = map (\<lambda>kv. (fst kv, PyStr (snd kv))) (path_params request)"

text \<open>Lines 378 to 442, the branch of a \<^verbatim>\<open>.py\<close> route: \<open>Inl\<close> of the result is a response
  returned at once.\<close>

definition py_branch ::
  "'f handler_env \<Rightarrow> string \<Rightarrow> scope \<Rightarrow> 'f effect list \<times> (error + response + 'f page_state)" where
  "py_branch env file_path request =
     (case load_route_module env file_path of
        Inl e \<Rightarrow> ([LoadModule file_path], Inl e)
      | Inr module \<Rightarrow>
          (case page module of
             None \<Rightarrow> ([LoadModule file_path], Inl (AttributeError file_path))
           | Some pg \<Rightarrow>
               (let call_args = (if path_params request = [] then []
                                 else [PyDict (path_kwargs request)]);
                    call_kwargs0 = (if ''request'' \<in> fst ` set (parameters pg)
                                    then [(''request'', PyRequest request)] else [])
                in (case bind_query (builtins env) request (parameters pg) call_kwargs0 of
                      Inl e \<Rightarrow> ([LoadModule file_path], Inl e)
                    | Inr call_kwargs \<Rightarrow>
                        (let run = call pg call_args call_kwargs;
                             effs = [LoadModule file_path, CallPage call_args call_kwargs]
                         in (case returned run of
                               Inl e \<Rightarrow> (effs, Inl e)
                             | Inr result \<Rightarrow>
                                 (case page_result (str_of env) (SSE env) result of
                                    Inl e \<Rightarrow> (effs, Inl e)
                                  | Inr (Return r) \<Rightarrow> (effs, Inr (Inl r))
                                  | Inr (Rendered c props) \<Rightarrow>
                                      (effs, Inr (Inr
                                        \<lparr>content = c, layout_props = props,
                                         meta = dict_update (dict_update [] (extract_meta (metadata module)))
                                                  (extract_meta (runtime_metadata run)),
                                         req_should_cache =
                                           (case cache_settings module of None \<Rightarrow> None
                                            | Some cs \<Rightarrow> enabled cs),
                                         req_cache_ttl =
                                           (case cache_settings module of None \<Rightarrow> 0
                                            | Some cs \<Rightarrow> ttl cs)\<rparr>)))))))))"

text \<open>Lines 462 to 472.\<close>

definition should_cache :: "bool \<Rightarrow> bool option \<Rightarrow> bool" where
  "should_cache cache_enabled req =
     (if req = Some True then True else if req = Some False then False else cache_enabled)"

definition ttl_to_save :: "int \<Rightarrow> int \<Rightarrow> int" where
  "ttl_to_save default_ttl req_ttl = (if req_ttl > 0 then req_ttl else default_ttl)"

text \<open>Lines 446 to 475: rendering, the response and the cache save.\<close>

definition render_and_save ::
  "'f handler_env \<Rightarrow> string \<Rightarrow> scope \<Rightarrow> 'f effect list \<Rightarrow> 'f page_state
     \<Rightarrow> 'f effect list \<times> (error + response)" where
  "render_and_save env file_path request effs st =
     (case transform_components env (content st) (dirname env file_path) of
        Inl e \<Rightarrow> (effs, Inl e)
      | Inr c \<Rightarrow>
          (let full_context = dict_update
                 (dict_update (path_kwargs request) [(''request'', PyRequest request)])
                 (layout_props st)
           in (case render_with_nested_layouts env
                      \<lparr>children = c, route_dir = dirname env file_path,
                       page_metadata_arg = meta st, page_layout_props = Some (layout_props st),
                       context_data = full_context\<rparr> of
                 Inl e \<Rightarrow> (effs, Inl e)
               | Inr rendered \<Rightarrow>
                   (case transform_scripts env (fst rendered) of
                      Inl e \<Rightarrow> (effs, Inl e)
                    | Inr html_output \<Rightarrow>
                        (let response = set_header ''X-PP-Root-Layout'' (snd rendered)
                                          (HTMLResponse html_output 200)
                         in if should_cache (CACHE_ENABLED env) (req_should_cache st)
                               \<and> http_method request = ''GET''
                            then (effs @ [SaveCache (path request) html_output
                                            (ttl_to_save (DEFAULT_TTL env) (req_cache_ttl st))],
                                  Inr response)
                            else (effs, Inr response))))))"

text \<open>Lines 370 to 475, after the cache check.\<close>

definition render_route ::
  "'f handler_env \<Rightarrow> string \<Rightarrow> scope \<Rightarrow> 'f effect list \<times> (error + response)" where
  "render_route env file_path request =
     (if endswith file_path ''.py'' then
        (case py_branch env file_path request of
           (effs, Inl e) \<Rightarrow> (effs, Inl e)
         | (effs, Inr (Inl r)) \<Rightarrow> (effs, Inr r)
         | (effs, Inr (Inr st)) \<Rightarrow> render_and_save env file_path request effs st)
      else
        (case load_template_file env file_path of
           Inl e \<Rightarrow> ([], Inl e)
         | Inr c \<Rightarrow>
             render_and_save env file_path request []
               \<lparr>content = c, layout_props = [], meta = [],
                req_should_cache = None, req_cache_ttl = 0\<rparr>))"

text \<open>\<^verbatim>\<open>make_handler\<close>: the effects of the call in order, and the response or the exception.\<close>

definition make_handler ::
  "'f handler_env \<Rightarrow> string \<Rightarrow> scope \<Rightarrow> 'f effect list \<times> (error + response)" where
  "make_handler env file_path request =
     (if http_method request = ''GET'' then
        (case serve_cache env (path request) (DEFAULT_TTL env) of
           None \<Rightarrow> render_route env file_path request
         | Some cached_resp \<Rightarrow>
             if cached_resp \<noteq> [] then ([], Inr (HTMLResponse cached_resp 200))
             else render_route env file_path request)
      else render_route env file_path request)"

section \<open>The handler of unhandled exceptions\<close>

text \<open>\<open>error_page\<close> is \<open>None\<close> when \<^verbatim>\<open>src/app/error.html\<close> does not exist and otherwise what
  reading it gives; \<open>render\<close> is \<^verbatim>\<open>string_env.from_string(raw_content).render(**context_data)\<close>,
  \<open>layouts\<close> is \<^verbatim>\<open>render_with_nested_layouts\<close>; \<open>exc_str\<close> is \<^verbatim>\<open>str(exc)\<close> and \<open>trace\<close> what
  \<^verbatim>\<open>traceback.format_exc()\<close> returns.\<close>

definition fallback_500 :: "string \<Rightarrow> response" where
  "fallback_500 error_message =
     HTMLResponse (''<h1>500 - Internal Server Error</h1><p>'' @ error_message @ ''</p>'') 500"

definition custom_general_exception_handler ::
  "bool \<Rightarrow> (error + string) option \<Rightarrow> (string \<Rightarrow> (string \<times> 'f pyval) list \<Rightarrow> error + string)
     \<Rightarrow> ('f render_args \<Rightarrow> error + string \<times> string) \<Rightarrow> scope \<Rightarrow> string \<Rightarrow> string
     \<Rightarrow> error + response" where
  "custom_general_exception_handler is_production error_page render layouts request exc_str trace =
     (let error_message = exc_str;
          error_trace = (if \<not> is_production then PyStr trace else PyNone)
      in (case error_page of
            None \<Rightarrow> Inr (fallback_500 error_message)
          | Some (Inl e) \<Rightarrow> Inl e
          | Some (Inr raw_content) \<Rightarrow>
              (let ctx = [(''request'', PyRequest request),
                          (''error_message'', PyStr error_message),
                          (''error_trace'', error_trace)]
               in (case render raw_content ctx of
                     Inl render_exc \<Rightarrow> Inr (fallback_500 error_message)
                   | Inr rendered_content \<Rightarrow>
                       (case layouts
                               \<lparr>children = rendered_content, route_dir = ''src/app'',
                                page_metadata_arg = [(''title'', ''Application Error''),
                                   (''description'', ''An unexpected error occurred.'')],
                                page_layout_props = None, context_data = ctx\<rparr> of
                          Inl render_exc \<Rightarrow> Inr (fallback_500 error_message)
                        | Inr rendered \<Rightarrow>
                            Inr (set_header ''X-PP-Root-Layout'' (snd rendered)
                                   (HTMLResponse (fst rendered) 500)))))))"

section \<open>Sample settings and requests\<close>

text \<open>The settings that \<^verbatim>\<open>setup_auth\<close> configures (lines 48 to 87): the public route
  \<^verbatim>\<open>/\<close>, the auth routes \<^verbatim>\<open>/signin\<close> and \<^verbatim>\<open>/signup\<close>, the redirect to \<^verbatim>\<open>/dashboard\<close>,
  no roles and no failure handler. \<^verbatim>\<open>is_all_routes_private\<close> and whether the request is
  authenticated are parameters; with all routes private, every path that is neither public
  nor an auth route is private. No provider answers.\<close>

definition setup_auth :: "bool \<Rightarrow> bool \<Rightarrow> auth_inst" where
  "setup_auth all_private authenticated =
     \<lparr>has_providers = True,
      auth_providers = (\<lambda>request. None),
      is_public_route = (\<lambda>p. p \<in> set [''/'']),
      is_auth_route = (\<lambda>p. p \<in> set [''/signin'', ''/signup'']),
      is_private_route = (\<lambda>p. all_private \<and> p \<notin> set [''/''] \<and> p \<notin> set [''/signin'', ''/signup'']),
      is_authenticated = (\<lambda>request. authenticated),
      default_signin_redirect = ''/dashboard'',
      is_role_based = False,
      get_required_roles = (\<lambda>p. []),
      check_role = (\<lambda>request roles. True),
      on_auth_failure = None\<rparr>"

text \<open>An HTTP request with an empty session, and a response with no headers.\<close>

definition http_request :: "string \<Rightarrow> string \<Rightarrow> headers \<Rightarrow> scope" where
  "http_request m p hs =
     \<lparr>stype = ''http'', http_method = m, path = p, req_headers = hs,
      query_params = [], path_params = [], session = Some []\<rparr>"

definition plain_response :: "nat \<Rightarrow> string \<Rightarrow> response" where
  "plain_response st b = \<lparr>status_code = st, raw_headers = [], body = [b]\<rparr>"

definition sample_stack :: stack_env where
  "sample_stack =
     \<lparr>IS_PRODUCTION = False, token_hex = ''a1b2'', auth = setup_auth True False,
      handle_rpc_request = (\<lambda>request sess. Inr (plain_response 200 ''rpc'')),
      session_middleware = (\<lambda>app. app)\<rparr>"

text \<open>Stand-ins for the builtins in the examples, whose strings are ASCII. On a string of
  ASCII characters \<open>sample_strip\<close> is \<^verbatim>\<open>str.strip\<close>, which drops the characters 9 to 13 and
  28 to 32 at both ends, and \<open>lower\<close> is \<^verbatim>\<open>str.lower\<close>. \<open>sample_int\<close> is \<^verbatim>\<open>int\<close> in base 10
  under its default limit of 4300 digits: whitespace (the characters 9 to 13 and 32) at
  both ends, one sign, and decimal digits that single underscores may separate; in
  \<open>int_digits\<close>, \<open>prev\<close> says that the character before was a digit. \<^verbatim>\<open>float\<close> is given
  at the two strings the examples pass to it only: it parses \<^verbatim>\<open>1.5\<close>, the one float of
  the examples, which \<open>PyFloat ()\<close> stands for, and raises for \<^verbatim>\<open>abc\<close>.\<close>

definition is_space :: "char \<Rightarrow> bool" where
  "is_space c = (let n = (of_char c :: nat) in (9 \<le> n \<and> n \<le> 13) \<or> (28 \<le> n \<and> n \<le> 32))"

definition sample_strip :: "string \<Rightarrow> string" where
  "sample_strip s = rev (dropWhile is_space (rev (dropWhile is_space s)))"

definition is_digit :: "char \<Rightarrow> bool" where
  "is_digit c = (let n = (of_char c :: nat) in 48 \<le> n \<and> n \<le> 57)"

fun int_digits :: "bool \<Rightarrow> nat \<Rightarrow> string \<Rightarrow> nat option" where
  "int_digits prev acc [] = (if prev then Some acc else None)"
| "int_digits prev acc (c # cs) =
     (if is_digit c then int_digits True (10 * acc + (of_char c - 48)) cs
      else if c = CHR ''_'' \<and> prev then int_digits False acc cs
      else None)"

definition is_int_space :: "char \<Rightarrow> bool" where
  "is_int_space c = (let n = (of_char c :: nat) in (9 \<le> n \<and> n \<le> 13) \<or> n = 32)"

definition sample_int :: "string \<Rightarrow> int option" where
  "sample_int s =
     (case rev (dropWhile is_int_space (rev (dropWhile is_int_space s))) of
        [] \<Rightarrow> None
      | c # cs \<Rightarrow>
          if 4300 < length (filter is_digit (c # cs)) then None
          else if c = CHR ''-'' then map_option (\<lambda>n. - int n) (int_digits False 0 cs)
          else if c = CHR ''+'' then map_option int (int_digits False 0 cs)
          else map_option int (int_digits False 0 (c # cs)))"

definition sample_builtins :: "unit py_builtins" where
  "sample_builtins =
     \<lparr>py_int = sample_int,
      py_float = (\<lambda>s. if s = ''1.5'' then Some () else None),
      py_strip = sample_strip,
      py_lower = lower\<rparr>"

text \<open>The request \<^verbatim>\<open>GET /items?x=1&y=9&x=2&x=3\<close>.\<close>

definition items_request :: scope where
  "items_request =
     \<lparr>stype = ''http'', http_method = ''GET'', path = ''/items'', req_headers = [],
      query_params = [(''x'', ''1''), (''y'', ''9''), (''x'', ''2''), (''x'', ''3'')],
      path_params = [], session = Some []\<rparr>"

text \<open>Python's \<^verbatim>\<open>str\<close> at the values the examples return from a page function: a string is
  itself, an integer is its decimal numeral, and a pair of integers is written
  \<^verbatim>\<open>(a, b)\<close>. No other value is converted in the examples.\<close>

definition str_int :: "int \<Rightarrow> string" where
  "str_int i = (if i < 0 then ''-'' else []) @ digits (nat \<bar>i\<bar>)"

definition sample_str :: "unit pyval \<Rightarrow> string" where
  "sample_str v =
     (case v of
        PyStr s \<Rightarrow> s
      | PyInt i \<Rightarrow> str_int i
      | PyTuple [PyInt a, PyInt b] \<Rightarrow> ''('' @ str_int a @ '', '' @ str_int b @ '')''
      | _ \<Rightarrow> ''<object>'')"

text \<open>A route module whose page function takes no parameters and returns \<open>ret\<close>, and an
  application around it: the cache answers every lookup with \<open>cached\<close>, components and
  scripts are left as they are, and the layouts put the page into \<^verbatim>\<open><main>\<close> under the
  root layout \<^verbatim>\<open>root\<close>.\<close>

definition sample_module :: "unit pyval \<Rightarrow> cache_settings_obj option \<Rightarrow> unit module" where
  "sample_module ret cs =
     \<lparr>page = Some \<lparr>parameters = [],
                    call = (\<lambda>args kwargs. \<lparr>returned = Inr ret, runtime_metadata = None\<rparr>)\<rparr>,
      cache_settings = cs, metadata = None\<rparr>"

definition sample_env :: "string option \<Rightarrow> bool \<Rightarrow> unit module \<Rightarrow> unit handler_env" where
  "sample_env cached cache_enabled m =
     \<lparr>CACHE_ENABLED = cache_enabled, DEFAULT_TTL = 600,
      serve_cache = (\<lambda>uri default_ttl. cached),
      load_route_module = (\<lambda>p. Inr m),
      load_template_file = (\<lambda>p. Inr ''<p>static</p>''),
      transform_components = (\<lambda>c base_dir. Inr c),
      render_with_nested_layouts = (\<lambda>args. Inr (''<main>'' @ children args @ ''</main>'', ''root'')),
      transform_scripts = (\<lambda>html. Inr html),
      dirname = (\<lambda>p. ''src/app''),
      str_of = sample_str,
      builtins = sample_builtins,
      SSE = (\<lambda>gen. plain_response 200 ''stream'')\<rparr>"

section \<open>Properties of the coercion of query parameters\<close>

lemma coerce_scalar_returns: "\<exists>r. coerce_scalar b val ann = Inr r"
  by (simp add: coerce_scalar_def Let_def split: option.split sum.split)

lemma comprehension_elementwise:
  assumes "\<And>x. \<exists>y. f x = Inr y"
  shows "\<exists>ys. comprehension f xs = Inr ys \<and> length ys = length xs
           \<and> (\<forall>i<length xs. f (xs ! i) = Inr (ys ! i))"
proof (induction xs)
  case Nil
  show ?case by simp
next
  case (Cons x xs)
  from assms obtain y where y: "f x = Inr y" by blast
  from Cons obtain ys where ys: "comprehension f xs = Inr ys" "length ys = length xs"
    "\<forall>i<length xs. f (xs ! i) = Inr (ys ! i)" by blast
  have "\<forall>i<length (x # xs). f ((x # xs) ! i) = Inr ((y # ys) ! i)"
    using y ys(3) by (simp add: nth_Cons split: nat.split)
  then show ?case using y ys by simp
qed

lemma elementwise_three:
  assumes "length vs = 3"
    and "\<forall>i<length vs. f ([x1, x2, x3] ! i) = Inr (vs ! i)"
    and "f x1 = Inr y1" and "f x2 = Inr y2" and "f x3 = Inr y3"
  shows "vs = [y1, y2, y3]"
proof -
  have "Inr (vs ! 0) = f x1" using assms(2) [rule_format, of 0] assms(1) by simp
  then have v0: "vs ! 0 = y1" using assms(3) by simp
  have "Inr (vs ! 1) = f x2" using assms(2) [rule_format, of 1] assms(1) by simp
  then have v1: "vs ! 1 = y2" using assms(4) by simp
  have "Inr (vs ! 2) = f x3" using assms(2) [rule_format, of 2] assms(1) by simp
  then have v2: "vs ! 2 = y3" using assms(5) by simp
  show ?thesis
    using assms(1) v0 v1 v2
    by (auto simp add: list_eq_iff_nth_eq nth_Cons' less_Suc_eq numeral_3_eq_3 numeral_2_eq_2)
qed

text \<open>
  Claim C4, with the boolean rule as the code has it. \<^verbatim>\<open>_coerce_scalar\<close> never raises: it
  returns a value for every input, whatever the builtins do. After \<^verbatim>\<open>Optional\<close> is
  unwrapped, a missing annotation, \<^verbatim>\<open>str\<close> and \<^verbatim>\<open>Any\<close> return the string unchanged; \<^verbatim>\<open>int\<close>
  and \<^verbatim>\<open>float\<close> return the number that \<^verbatim>\<open>int(value)\<close> or \<^verbatim>\<open>float(value)\<close> gives, and the
  original string when that raises; \<^verbatim>\<open>bool\<close> compares \<^verbatim>\<open>value.strip().lower()\<close> with the
  six words for true and then with the six words for false, and otherwise returns whether
  the value itself, unstripped, is non-empty. Every annotation other than \<^verbatim>\<open>int\<close>,
  \<^verbatim>\<open>float\<close> and \<^verbatim>\<open>bool\<close> returns the string unchanged.
\<close>

theorem coerce_scalar_rule:
  "(\<exists>r. coerce_scalar b val ann = Inr r) \<and>
   (unwrap_optional ann \<in> {AnnEmpty, AnnStr, AnnAny} \<longrightarrow> coerce_scalar b (Some v) ann = Inr (PyStr v)) \<and>
   (unwrap_optional ann = AnnInt \<longrightarrow>
      coerce_scalar b (Some v) ann = Inr (case py_int b v of Some n \<Rightarrow> PyInt n | None \<Rightarrow> PyStr v)) \<and>
   (unwrap_optional ann = AnnFloat \<longrightarrow>
      coerce_scalar b (Some v) ann = Inr (case py_float b v of Some x \<Rightarrow> PyFloat x | None \<Rightarrow> PyStr v)) \<and>
   (unwrap_optional ann = AnnBool \<longrightarrow>
      coerce_scalar b (Some v) ann =
        Inr (PyBool (if py_lower b (py_strip b v) \<in> {''1'', ''true'', ''t'', ''yes'', ''y'', ''on''} then True
                     else if py_lower b (py_strip b v) \<in> {''0'', ''false'', ''f'', ''no'', ''n'', ''off''} then False
                     else v \<noteq> []))) \<and>
   (unwrap_optional ann \<notin> {AnnInt, AnnFloat, AnnBool} \<longrightarrow> coerce_scalar b (Some v) ann = Inr (PyStr v))"
  by (auto simp add: coerce_scalar_def coerce_scalar_try_def true_words_def false_words_def Let_def
      split: option.split sum.split)

lemma ev_strip_off: "sample_strip '' off'' = ''off''" by code_simp
lemma ev_lower_off: "lower ''off'' = ''off''" by code_simp
lemma ev_lower_off2: "lower '' off'' = '' off''" by code_simp
lemma ev_int_abc: "sample_int ''abc'' = None" by code_simp
lemma ev_int_42: "sample_int ''42'' = Some 42" by code_simp
lemma ev_strip_YES: "sample_strip ''YES'' = ''YES''" by code_simp
lemma ev_lower_YES: "lower ''YES'' = ''yes''" by code_simp
lemma ev_strip_maybe: "sample_strip ''maybe'' = ''maybe''" by code_simp
lemma ev_lower_maybe: "lower ''maybe'' = ''maybe''" by code_simp

text \<open>
  The rule at concrete values, one for each annotation.
\<close>

theorem coerce_scalar_rule_witness:
  "coerce_scalar sample_builtins (Some ''abc'') AnnStr = Inr (PyStr ''abc'')
   \<and> coerce_scalar sample_builtins (Some ''abc'') (AnnUnion [AnnInt, AnnNoneType]) = Inr (PyStr ''abc'')
   \<and> coerce_scalar sample_builtins (Some ''42'') AnnInt = Inr (PyInt 42)
   \<and> coerce_scalar sample_builtins (Some ''abc'') AnnFloat = Inr (PyStr ''abc'')
   \<and> coerce_scalar sample_builtins (Some ''1.5'') AnnFloat = Inr (PyFloat ())
   \<and> coerce_scalar sample_builtins (Some ''YES'') AnnBool = Inr (PyBool True)
   \<and> coerce_scalar sample_builtins (Some '' off'') AnnBool = Inr (PyBool False)
   \<and> coerce_scalar sample_builtins (Some ''maybe'') AnnBool = Inr (PyBool True)
   \<and> coerce_scalar sample_builtins (Some ''42'') (AnnOther ''list'') = Inr (PyStr ''42'')"
  using coerce_scalar_rule [where b = sample_builtins and val = None and ann = AnnStr and v = "''abc''"]
    coerce_scalar_rule [where b = sample_builtins and val = None
      and ann = "AnnUnion [AnnInt, AnnNoneType]" and v = "''abc''"]
    coerce_scalar_rule [where b = sample_builtins and val = None and ann = AnnInt and v = "''42''"]
    coerce_scalar_rule [where b = sample_builtins and val = None and ann = AnnFloat and v = "''abc''"]
    coerce_scalar_rule [where b = sample_builtins and val = None and ann = AnnFloat and v = "''1.5''"]
    coerce_scalar_rule [where b = sample_builtins and val = None and ann = AnnBool and v = "''YES''"]
    coerce_scalar_rule [where b = sample_builtins and val = None and ann = AnnBool and v = "'' off''"]
    coerce_scalar_rule [where b = sample_builtins and val = None and ann = AnnBool and v = "''maybe''"]
    coerce_scalar_rule [where b = sample_builtins and val = None and ann = "AnnOther ''list''" and v = "''42''"]
  by (simp add: sample_builtins_def ev_strip_off ev_lower_off ev_int_abc ev_int_42
      ev_strip_YES ev_lower_YES ev_strip_maybe ev_lower_maybe)

text \<open>
  Claim C4 as stated matches the value itself, case-insensitively, and falls back to
  truthiness for any other value. The value \<^verbatim>\<open>" off"\<close> is in neither word list when
  lower-cased and is non-empty, so the stated rule gives true; the code strips it first
  and returns false.
\<close>

theorem coerce_bool_unstripped_counterexample:
  "py_lower sample_builtins '' off'' \<notin> set true_words
   \<and> py_lower sample_builtins '' off'' \<notin> set false_words \<and> '' off'' \<noteq> []
   \<and> coerce_scalar sample_builtins (Some '' off'') AnnBool = Inr (PyBool False)"
  by (simp add: sample_builtins_def ev_strip_off ev_lower_off ev_lower_off2 true_words_def
      false_words_def coerce_scalar_def coerce_scalar_try_def)

text \<open>
  Claim C5, for the annotations whose origin is \<^verbatim>\<open>list\<close>. For a parameter annotated
  \<^verbatim>\<open>list[T]\<close> or \<^verbatim>\<open>typing.List[T]\<close>, or a \<^verbatim>\<open>typing.Optional\<close> of one, which is a
  \<^verbatim>\<open>Union\<close> whose arguments other than \<^verbatim>\<open>None\<close> are that one type, \<^verbatim>\<open>_coerce_query_param\<close>
  returns a list with one element for every value of the query key, in the order of the
  query string, each the scalar coercion of that value at the element type \<open>T\<close>; the
  element type of \<^verbatim>\<open>typing.List\<close> without an argument is \<^verbatim>\<open>str\<close>.
\<close>

theorem coerce_query_param_list:
  assumes "ann = AnnList t
           \<or> (\<exists>args. ann = AnnUnion args \<and> filter (\<lambda>a. a \<noteq> AnnNoneType) args = [AnnList t])"
  shows "\<exists>vs. coerce_query_param b request name ann = Inr (PyList vs)
           \<and> length vs = length (getlist (query_params request) name)
           \<and> (\<forall>i<length vs.
                 coerce_scalar b (Some (getlist (query_params request) name ! i))
                   (case t of None \<Rightarrow> AnnStr | Some T \<Rightarrow> T) = Inr (vs ! i))"
proof -
  let ?inner = "case t of None \<Rightarrow> AnnStr | Some T \<Rightarrow> T"
  let ?f = "\<lambda>v. coerce_scalar b (Some v) ?inner"
  let ?xs = "getlist (query_params request) name"
  have tot: "\<And>x. \<exists>y. ?f x = Inr y" by (rule coerce_scalar_returns)
  obtain ys where ys: "comprehension ?f ?xs = Inr ys" "length ys = length ?xs"
    "\<forall>i<length ?xs. ?f (?xs ! i) = Inr (ys ! i)"
    using comprehension_elementwise [of ?f ?xs, OF tot] by blast
  have inner: "list_inner (AnnList t) = ?inner" by (cases t) simp_all
  have eq: "coerce_query_param b request name ann = map_sum id PyList (comprehension ?f ?xs)"
    using assms
  proof
    assume "ann = AnnList t"
    then show ?thesis by (simp add: coerce_query_param_def inner Let_def)
  next
    assume "\<exists>args. ann = AnnUnion args \<and> filter (\<lambda>a. a \<noteq> AnnNoneType) args = [AnnList t]"
    then show ?thesis by (auto simp add: coerce_query_param_def inner Let_def)
  qed
  show ?thesis using ys eq by simp
qed

lemma ev_getlist: "getlist (query_params items_request) ''x'' = [''1'', ''2'', ''3'']"
  by (simp add: getlist_def items_request_def)
lemma ev_int_1: "sample_int ''1'' = Some 1" by code_simp
lemma ev_int_2: "sample_int ''2'' = Some 2" by code_simp
lemma ev_int_3: "sample_int ''3'' = Some 3" by code_simp

text \<open>
  The query string \<^verbatim>\<open>?x=1&y=9&x=2&x=3\<close> against \<^verbatim>\<open>Optional[list[int]]\<close>, against
  \<^verbatim>\<open>list[str]\<close> and against \<^verbatim>\<open>typing.List\<close>.
\<close>

theorem coerce_query_param_list_witness:
  "coerce_query_param sample_builtins items_request ''x'' (AnnUnion [AnnList (Some AnnInt), AnnNoneType])
     = Inr (PyList [PyInt 1, PyInt 2, PyInt 3])
   \<and> coerce_query_param sample_builtins items_request ''x'' (AnnList (Some AnnStr))
     = Inr (PyList [PyStr ''1'', PyStr ''2'', PyStr ''3''])
   \<and> coerce_query_param sample_builtins items_request ''x'' (AnnList None)
     = Inr (PyList [PyStr ''1'', PyStr ''2'', PyStr ''3''])"
proof -
  let ?b = sample_builtins
  have h1: "AnnUnion [AnnList (Some AnnInt), AnnNoneType] = AnnList (Some AnnInt)
      \<or> (\<exists>args. AnnUnion [AnnList (Some AnnInt), AnnNoneType] = AnnUnion args
            \<and> filter (\<lambda>a. a \<noteq> AnnNoneType) args = [AnnList (Some AnnInt)])"
    by simp
  from coerce_query_param_list [OF h1, where b = ?b and request = items_request and name = "''x''"]
  obtain vs where vs: "coerce_query_param ?b items_request ''x''
        (AnnUnion [AnnList (Some AnnInt), AnnNoneType]) = Inr (PyList vs)"
    "length vs = 3"
    "\<forall>i<length vs. coerce_scalar ?b (Some ([''1'', ''2'', ''3''] ! i)) AnnInt = Inr (vs ! i)"
    by (auto simp add: ev_getlist)
  have ci: "coerce_scalar ?b (Some ''1'') AnnInt = Inr (PyInt 1)"
    "coerce_scalar ?b (Some ''2'') AnnInt = Inr (PyInt 2)"
    "coerce_scalar ?b (Some ''3'') AnnInt = Inr (PyInt 3)"
    by (simp_all add: coerce_scalar_def coerce_scalar_try_def sample_builtins_def
        ev_int_1 ev_int_2 ev_int_3)
  have r1: "vs = [PyInt 1, PyInt 2, PyInt 3]"
    by (rule elementwise_three [OF vs(2) vs(3) ci])
  have h2: "AnnList (Some AnnStr) = AnnList (Some AnnStr)
      \<or> (\<exists>args. AnnList (Some AnnStr) = AnnUnion args
            \<and> filter (\<lambda>a. a \<noteq> AnnNoneType) args = [AnnList (Some AnnStr)])"
    by simp
  from coerce_query_param_list [OF h2, where b = ?b and request = items_request and name = "''x''"]
  obtain ws where ws: "coerce_query_param ?b items_request ''x'' (AnnList (Some AnnStr)) = Inr (PyList ws)"
    "length ws = 3"
    "\<forall>i<length ws. coerce_scalar ?b (Some ([''1'', ''2'', ''3''] ! i)) AnnStr = Inr (ws ! i)"
    by (auto simp add: ev_getlist)
  have cs: "coerce_scalar ?b (Some ''1'') AnnStr = Inr (PyStr ''1'')"
    "coerce_scalar ?b (Some ''2'') AnnStr = Inr (PyStr ''2'')"
    "coerce_scalar ?b (Some ''3'') AnnStr = Inr (PyStr ''3'')"
    by (simp_all add: coerce_scalar_def coerce_scalar_try_def)
  have r2: "ws = [PyStr ''1'', PyStr ''2'', PyStr ''3'']"
    by (rule elementwise_three [OF ws(2) ws(3) cs])
  have h3: "AnnList None = AnnList None
      \<or> (\<exists>args. AnnList None = AnnUnion args
            \<and> filter (\<lambda>a. a \<noteq> AnnNoneType) args = [AnnList None])"
    by simp
  from coerce_query_param_list [OF h3, where b = ?b and request = items_request and name = "''x''"]
  obtain us where us: "coerce_query_param ?b items_request ''x'' (AnnList None) = Inr (PyList us)"
    "length us = 3"
    "\<forall>i<length us. coerce_scalar ?b (Some ([''1'', ''2'', ''3''] ! i)) AnnStr = Inr (us ! i)"
    by (auto simp add: ev_getlist)
  have r3: "us = [PyStr ''1'', PyStr ''2'', PyStr ''3'']"
    by (rule elementwise_three [OF us(2) us(3) cs])
  show ?thesis using vs(1) r1 ws(1) r2 us(1) r3 by simp
qed

text \<open>
  Claim C5 as stated covers every list type. The class \<^verbatim>\<open>list\<close> itself, as in
  \<^verbatim>\<open>def page(x: list)\<close>, has no origin, so the scalar path is taken: of the three values of
  \<^verbatim>\<open>?x=1&y=9&x=2&x=3\<close> only the one that \<^verbatim>\<open>query_params.get\<close> returns, the last, comes
  back, as a string and not as a list.
\<close>

theorem coerce_bare_list_counterexample:
  "getlist (query_params items_request) ''x'' = [''1'', ''2'', ''3'']
   \<and> coerce_query_param sample_builtins items_request ''x'' (AnnOther ''list'') = Inr (PyStr ''3'')"
  by (simp add: ev_getlist coerce_query_param_def qp_get_def coerce_scalar_def coerce_scalar_try_def)

section \<open>Properties of the middleware\<close>

lemma send_wrapper_start:
  "mtype m = ''http.response.start'' \<Longrightarrow>
     send_wrapper p t m = m\<lparr>mheaders := Some ((case mheaders m of None \<Rightarrow> [] | Some hs \<Rightarrow> hs)
        @ [(''set-cookie'', ''pp_csrf='' @ t @ ''; Path=/; SameSite=Lax'' @ (if p then ''; Secure'' else []))])\<rparr>"
  by (simp add: send_wrapper_def Let_def)

lemma send_wrapper_other: "mtype m \<noteq> ''http.response.start'' \<Longrightarrow> send_wrapper p t m = m"
  by (simp add: send_wrapper_def)

lemma ensure_csrf_token_stored:
  "t \<noteq> [] \<Longrightarrow> map_of (snd (ensure_csrf_token t sess)) ''csrf_token'' = Some (fst (ensure_csrf_token t sess))"
  by (auto simp add: ensure_csrf_token_def update_conv' split: option.split)

lemma ensure_csrf_token_nonempty:
  "t \<noteq> [] \<Longrightarrow> fst (ensure_csrf_token t sess) \<noteq> []"
  by (auto simp add: ensure_csrf_token_def split: option.split)

lemma ensure_csrf_token_reuse:
  "map_of sess ''csrf_token'' = Some tok \<Longrightarrow> tok \<noteq> [] \<Longrightarrow> ensure_csrf_token t sess = (tok, sess)"
  by (simp add: ensure_csrf_token_def)

text \<open>
  Claim C9. For an HTTP scope with a session, \<^verbatim>\<open>CSRFMiddleware\<close> passes on every message
  of the wrapped application, in order; a message of type \<^verbatim>\<open>http.response.start\<close> gets the
  header \<^verbatim>\<open>set-cookie: pp_csrf=<token>; Path=/; SameSite=Lax\<close> appended after the headers
  it has, with \<^verbatim>\<open>; Secure\<close> exactly in production, and every other message is unchanged.
  Nothing here looks at the request method. The token is not empty and is stored in the
  session handed on. A session with no token, or with an empty one, gets the token just
  generated, stored under \<^verbatim>\<open>csrf_token\<close> with the other entries of the session as they
  were; a non-empty token already in the session is kept with the session unchanged, and
  any later call on the session so left takes the same token again, whatever new token
  would have been generated. The generated token \<open>fresh\<close> is non-empty, as
  \<^verbatim>\<open>secrets.token_hex(32)\<close> is.
\<close>

theorem csrf_cookie_appended:
  assumes "stype scope = ''http''" and "session scope = Some sess" and "fresh \<noteq> []"
  shows "\<exists>tok sess'. ensure_csrf_token fresh sess = (tok, sess')
           \<and> (let inner = app (scope\<lparr>session := Some sess'\<rparr>);
                   out = CSRFMiddleware_call is_production fresh app scope
               in length (sent out) = length (sent inner)
                  \<and> (\<forall>i < length (sent inner).
                        (mtype (sent inner ! i) = ''http.response.start'' \<longrightarrow>
                           sent out ! i = (sent inner ! i)\<lparr>mheaders :=
                             Some ((case mheaders (sent inner ! i) of None \<Rightarrow> [] | Some hs \<Rightarrow> hs)
                               @ [(''set-cookie'', ''pp_csrf='' @ tok @ ''; Path=/; SameSite=Lax''
                                     @ (if is_production then ''; Secure'' else []))])\<rparr>)
                        \<and> (mtype (sent inner ! i) \<noteq> ''http.response.start'' \<longrightarrow>
                             sent out ! i = sent inner ! i))
                  \<and> raised out = raised inner \<and> session_out out = session_out inner)
           \<and> tok \<noteq> [] \<and> map_of sess' ''csrf_token'' = Some tok
           \<and> (\<forall>old. map_of sess ''csrf_token'' = Some old \<and> old \<noteq> [] \<longrightarrow> tok = old \<and> sess' = sess)
           \<and> (map_of sess ''csrf_token'' = None \<or> map_of sess ''csrf_token'' = Some [] \<longrightarrow>
                 tok = fresh \<and> sess' = AList.update ''csrf_token'' fresh sess)
           \<and> (\<forall>later. ensure_csrf_token later sess' = (tok, sess'))"
proof -
  obtain tok sess' where ts: "ensure_csrf_token fresh sess = (tok, sess')"
    by (cases "ensure_csrf_token fresh sess")
  have ne: "tok \<noteq> []" using ensure_csrf_token_nonempty [OF assms(3), of sess] ts by simp
  have st: "map_of sess' ''csrf_token'' = Some tok"
    using ensure_csrf_token_stored [OF assms(3), of sess] ts by simp
  have reuse: "\<forall>old. map_of sess ''csrf_token'' = Some old \<and> old \<noteq> [] \<longrightarrow> tok = old \<and> sess' = sess"
    using ts by (auto simp add: ensure_csrf_token_reuse)
  have later: "\<forall>later. ensure_csrf_token later sess' = (tok, sess')"
    using st ne by (simp add: ensure_csrf_token_reuse)
  have gen: "map_of sess ''csrf_token'' = None \<or> map_of sess ''csrf_token'' = Some [] \<longrightarrow>
      tok = fresh \<and> sess' = AList.update ''csrf_token'' fresh sess"
    using ts by (auto simp add: ensure_csrf_token_def)
  have call: "CSRFMiddleware_call is_production fresh app scope
      = (app (scope\<lparr>session := Some sess'\<rparr>))
          \<lparr>sent := map (send_wrapper is_production tok) (sent (app (scope\<lparr>session := Some sess'\<rparr>)))\<rparr>"
    using assms(1,2) ts by (simp add: CSRFMiddleware_call_def Let_def)
  show ?thesis
    using ts ne st reuse later gen
    by (simp add: call Let_def send_wrapper_start send_wrapper_other) blast
qed

text \<open>
  A POST request in production, whose session has no token yet, and the next request of
  that session, for which another token would have been generated.
\<close>

theorem csrf_cookie_appended_witness:
  "stype \<lparr>stype = ''http'', http_method = ''POST'', path = ''/form'', req_headers = [],
           query_params = [], path_params = [], session = Some [(''user'', ''ann'')]\<rparr> = ''http''
   \<and> ''a1b2'' \<noteq> []
   \<and> sent (CSRFMiddleware_call True ''a1b2''
        (respond \<lparr>status_code = 200, raw_headers = [(''x-frame-options'', ''DENY'')], body = [''ok'']\<rparr>)
        \<lparr>stype = ''http'', http_method = ''POST'', path = ''/form'', req_headers = [],
         query_params = [], path_params = [], session = Some [(''user'', ''ann'')]\<rparr>)
     = [\<lparr>mtype = ''http.response.start'',
         mheaders = Some [(''x-frame-options'', ''DENY''),
                          (''set-cookie'', ''pp_csrf=a1b2; Path=/; SameSite=Lax; Secure'')],
         mstatus = 200, mbody = []\<rparr>,
        \<lparr>mtype = ''http.response.body'', mheaders = None, mstatus = 200, mbody = ''ok''\<rparr>]
   \<and> session_out (CSRFMiddleware_call True ''a1b2''
        (respond \<lparr>status_code = 200, raw_headers = [(''x-frame-options'', ''DENY'')], body = [''ok'']\<rparr>)
        \<lparr>stype = ''http'', http_method = ''POST'', path = ''/form'', req_headers = [],
         query_params = [], path_params = [], session = Some [(''user'', ''ann'')]\<rparr>)
     = Some [(''user'', ''ann''), (''csrf_token'', ''a1b2'')]
   \<and> sent (CSRFMiddleware_call True ''c3d4''
        (respond \<lparr>status_code = 200, raw_headers = [(''x-frame-options'', ''DENY'')], body = [''ok'']\<rparr>)
        \<lparr>stype = ''http'', http_method = ''GET'', path = ''/form'', req_headers = [],
         query_params = [], path_params = [],
         session = Some [(''user'', ''ann''), (''csrf_token'', ''a1b2'')]\<rparr>)
     = [\<lparr>mtype = ''http.response.start'',
         mheaders = Some [(''x-frame-options'', ''DENY''),
                          (''set-cookie'', ''pp_csrf=a1b2; Path=/; SameSite=Lax; Secure'')],
         mstatus = 200, mbody = []\<rparr>,
        \<lparr>mtype = ''http.response.body'', mheaders = None, mstatus = 200, mbody = ''ok''\<rparr>]"
proof -
  let ?scope = "\<lparr>stype = ''http'', http_method = ''POST'', path = ''/form'', req_headers = [],
           query_params = [], path_params = [], session = Some [(''user'', ''ann'')]\<rparr>"
  let ?next = "\<lparr>stype = ''http'', http_method = ''GET'', path = ''/form'', req_headers = [],
           query_params = [], path_params = [],
           session = Some [(''user'', ''ann''), (''csrf_token'', ''a1b2'')]\<rparr>"
  let ?app = "respond \<lparr>status_code = 200, raw_headers = [(''x-frame-options'', ''DENY'')], body = [''ok'']\<rparr>"
  have h1: "stype ?scope = ''http''" by simp
  have h2: "session ?scope = Some [(''user'', ''ann'')]" by simp
  have h3: "''a1b2'' \<noteq> []" by simp
  have tok: "ensure_csrf_token ''a1b2'' [(''user'', ''ann'')]
               = (''a1b2'', [(''user'', ''ann''), (''csrf_token'', ''a1b2'')])"
    by (simp add: ensure_csrf_token_def)
  let ?inner = "?app (?scope\<lparr>session := Some [(''user'', ''ann''), (''csrf_token'', ''a1b2'')]\<rparr>)"
  let ?out = "CSRFMiddleware_call True ''a1b2'' ?app ?scope"
  have inner: "sent ?inner = [\<lparr>mtype = ''http.response.start'',
         mheaders = Some [(''x-frame-options'', ''DENY'')], mstatus = 200, mbody = []\<rparr>,
        \<lparr>mtype = ''http.response.body'', mheaders = None, mstatus = 200, mbody = ''ok''\<rparr>]"
      "session_out ?inner = Some [(''user'', ''ann''), (''csrf_token'', ''a1b2'')]"
    by (simp_all add: respond_def response_messages_def)
  from csrf_cookie_appended [OF h1 h2 h3, where app = ?app and is_production = True]
  have len: "length (sent ?out) = 2"
    and each: "\<forall>i<2. (mtype (sent ?inner ! i) = ''http.response.start'' \<longrightarrow>
                 sent ?out ! i = (sent ?inner ! i)\<lparr>mheaders :=
                    Some ((case mheaders (sent ?inner ! i) of None \<Rightarrow> [] | Some hs \<Rightarrow> hs)
                      @ [(''set-cookie'', ''pp_csrf=a1b2; Path=/; SameSite=Lax; Secure'')])\<rparr>)
               \<and> (mtype (sent ?inner ! i) \<noteq> ''http.response.start'' \<longrightarrow> sent ?out ! i = sent ?inner ! i)"
    and so: "session_out ?out = session_out ?inner"
    unfolding tok Let_def using inner(1) by auto
  have m0: "sent ?out ! 0 = \<lparr>mtype = ''http.response.start'',
         mheaders = Some [(''x-frame-options'', ''DENY''),
                          (''set-cookie'', ''pp_csrf=a1b2; Path=/; SameSite=Lax; Secure'')],
         mstatus = 200, mbody = []\<rparr>"
    using each [rule_format, of 0] inner(1) by simp
  have m1: "sent ?out ! 1 = \<lparr>mtype = ''http.response.body'', mheaders = None, mstatus = 200, mbody = ''ok''\<rparr>"
    using each [rule_format, of 1] inner(1) by simp
  have again: "sent (CSRFMiddleware_call True ''c3d4'' ?app ?next)
     = [\<lparr>mtype = ''http.response.start'',
         mheaders = Some [(''x-frame-options'', ''DENY''),
                          (''set-cookie'', ''pp_csrf=a1b2; Path=/; SameSite=Lax; Secure'')],
         mstatus = 200, mbody = []\<rparr>,
        \<lparr>mtype = ''http.response.body'', mheaders = None, mstatus = 200, mbody = ''ok''\<rparr>]"
    by (simp add: CSRFMiddleware_call_def ensure_csrf_token_def respond_def response_messages_def
        send_wrapper_def Let_def)
  have "sent ?out = [sent ?out ! 0, sent ?out ! 1]"
    using len by (auto simp add: list_eq_iff_nth_eq nth_Cons' less_Suc_eq numeral_2_eq_2)
  with m0 m1 so inner(2) h1 h3 again show ?thesis by simp
qed

text \<open>
  Claim C6, with the header test as the code has it. A request that is not HTTP goes to
  the wrapped application. An HTTP request whose \<^verbatim>\<open>X-PP-RPC\<close> header is exactly the string
  \<^verbatim>\<open>true\<close> and whose method is \<^verbatim>\<open>POST\<close> is answered by the RPC handler, called with the
  request and the session mapping: the messages sent are those of the response it returns,
  and the wrapped application plays no part. Every other request goes to the wrapped
  application unchanged.
\<close>

theorem rpc_dispatch:
  "(stype scope \<noteq> ''http'' \<longrightarrow> RPCMiddleware_call h app scope = app scope)
   \<and> (stype scope = ''http'' \<and> headers_get (req_headers scope) ''X-PP-RPC'' = Some ''true''
        \<and> http_method scope = ''POST'' \<and> session scope = Some sess \<longrightarrow>
          RPCMiddleware_call h app scope =
            (case h scope sess of Inl e \<Rightarrow> raise e scope | Inr r \<Rightarrow> respond r scope)
          \<and> (\<forall>r. h scope sess = Inr r \<longrightarrow>
                sent (RPCMiddleware_call h app scope) = response_messages r))
   \<and> (\<not> (headers_get (req_headers scope) ''X-PP-RPC'' = Some ''true'' \<and> http_method scope = ''POST'') \<longrightarrow>
          RPCMiddleware_call h app scope = app scope)"
  by (auto simp add: RPCMiddleware_call_def respond_def split: sum.split)

lemma ev_lower_rpc: "lower ''X-PP-RPC'' = ''x-pp-rpc''" by code_simp

text \<open>
  An RPC call, a GET request with the header, and a scope that is not HTTP.
\<close>

theorem rpc_dispatch_witness:
  "RPCMiddleware_call (\<lambda>request sess. Inr (plain_response 200 (''rpc:'' @ concat (map fst sess))))
      (respond (plain_response 404 ''page''))
      ((http_request ''POST'' ''/todo'' [(''x-pp-rpc'', ''true'')])\<lparr>session := Some [(''user'', ''ann'')]\<rparr>)
    = respond (plain_response 200 ''rpc:user'')
        ((http_request ''POST'' ''/todo'' [(''x-pp-rpc'', ''true'')])\<lparr>session := Some [(''user'', ''ann'')]\<rparr>)
   \<and> RPCMiddleware_call (\<lambda>request sess. Inr (plain_response 200 ''rpc''))
        (respond (plain_response 404 ''page''))
        (http_request ''GET'' ''/todo'' [(''x-pp-rpc'', ''true'')])
      = respond (plain_response 404 ''page'') (http_request ''GET'' ''/todo'' [(''x-pp-rpc'', ''true'')])
   \<and> RPCMiddleware_call (\<lambda>request sess. Inr (plain_response 200 ''rpc''))
        (respond (plain_response 404 ''page''))
        ((http_request ''POST'' ''/todo'' [(''x-pp-rpc'', ''true'')])\<lparr>stype := ''websocket''\<rparr>)
      = respond (plain_response 404 ''page'')
          ((http_request ''POST'' ''/todo'' [(''x-pp-rpc'', ''true'')])\<lparr>stype := ''websocket''\<rparr>)"
  using rpc_dispatch [of "(http_request ''POST'' ''/todo'' [(''x-pp-rpc'', ''true'')])\<lparr>session := Some [(''user'', ''ann'')]\<rparr>"
          "\<lambda>request sess. Inr (plain_response 200 (''rpc:'' @ concat (map fst sess)))"
          "respond (plain_response 404 ''page'')" "[(''user'', ''ann'')]"]
    rpc_dispatch [of "http_request ''GET'' ''/todo'' [(''x-pp-rpc'', ''true'')]"
          "\<lambda>request sess. Inr (plain_response 200 ''rpc'')"
          "respond (plain_response 404 ''page'')" "[]"]
    rpc_dispatch [of "(http_request ''POST'' ''/todo'' [(''x-pp-rpc'', ''true'')])\<lparr>stype := ''websocket''\<rparr>"
          "\<lambda>request sess. Inr (plain_response 200 ''rpc'')"
          "respond (plain_response 404 ''page'')" "[]"]
  by (simp add: http_request_def headers_get_def ev_lower_rpc)

text \<open>
  Claim C6 as stated diverts every POST request with a truthy \<^verbatim>\<open>X-PP-RPC\<close> header. With
  the header values \<^verbatim>\<open>1\<close> and \<^verbatim>\<open>True\<close> the request goes to the wrapped application, whose
  answer is not the RPC handler's.
\<close>

theorem rpc_truthy_header_counterexample:
  "RPCMiddleware_call (\<lambda>request sess. Inr (plain_response 200 ''rpc''))
      (respond (plain_response 404 ''page'')) (http_request ''POST'' ''/todo'' [(''x-pp-rpc'', ''1'')])
     = respond (plain_response 404 ''page'') (http_request ''POST'' ''/todo'' [(''x-pp-rpc'', ''1'')])
   \<and> RPCMiddleware_call (\<lambda>request sess. Inr (plain_response 200 ''rpc''))
      (respond (plain_response 404 ''page'')) (http_request ''POST'' ''/todo'' [(''x-pp-rpc'', ''True'')])
     = respond (plain_response 404 ''page'') (http_request ''POST'' ''/todo'' [(''x-pp-rpc'', ''True'')])
   \<and> respond (plain_response 404 ''page'') (http_request ''POST'' ''/todo'' [(''x-pp-rpc'', ''1'')])
       \<noteq> respond (plain_response 200 ''rpc'') (http_request ''POST'' ''/todo'' [(''x-pp-rpc'', ''1'')])"
  by (simp add: RPCMiddleware_call_def http_request_def headers_get_def ev_lower_rpc
      respond_def response_messages_def plain_response_def)

text \<open>
  Claim C7, for the requests that reach the route checks. For an HTTP request whose path
  has no static prefix, for which the providers give no response and whose path is not a
  public route: on an auth route an authenticated request is answered by a 303 redirect to
  \<^verbatim>\<open>default_signin_redirect\<close>; on a private route that is not an auth route, an
  unauthenticated request with no \<^verbatim>\<open>on_auth_failure\<close> handler is answered by a 303 redirect
  to \<^verbatim>\<open>/signin?next=<path>\<close>. The wrapped application plays no part in either.
\<close>

theorem auth_redirects:
  assumes "stype scope = ''http''"
    and "\<not> (\<exists>p \<in> set static_prefixes. startswith (path scope) p)"
    and "has_providers inst \<longrightarrow> auth_providers inst scope = None"
    and "\<not> is_public_route inst (path scope)"
  shows "(is_auth_route inst (path scope) \<and> is_authenticated inst scope \<longrightarrow>
            AuthMiddleware_call inst app scope
              = respond (RedirectResponse (default_signin_redirect inst) 303) scope)
       \<and> (\<not> is_auth_route inst (path scope) \<and> is_private_route inst (path scope)
            \<and> \<not> is_authenticated inst scope \<and> on_auth_failure inst = None \<longrightarrow>
            AuthMiddleware_call inst app scope
              = respond (RedirectResponse (''/signin?next='' @ path scope) 303) scope)"
  using assms by (auto simp add: AuthMiddleware_call_def route_checks_def)

lemma ev_static_signin: "\<not> (\<exists>p \<in> set static_prefixes. startswith ''/signin'' p)"
  by (simp add: static_prefixes_def startswith_def)
lemma ev_static_account: "\<not> (\<exists>p \<in> set static_prefixes. startswith ''/account'' p)"
  by (simp add: static_prefixes_def startswith_def)
lemma ev_static_css: "\<exists>p \<in> set static_prefixes. startswith ''/css/app.css'' p"
  by (simp add: static_prefixes_def startswith_def)

text \<open>
  An authenticated request to \<^verbatim>\<open>/signin\<close>, and an unauthenticated one to \<^verbatim>\<open>/account\<close> with all routes private.
\<close>

theorem auth_redirects_witness:
  "AuthMiddleware_call (setup_auth False True) (respond (plain_response 200 ''page''))
       (http_request ''GET'' ''/signin'' [])
     = respond (RedirectResponse ''/dashboard'' 303) (http_request ''GET'' ''/signin'' [])
   \<and> AuthMiddleware_call (setup_auth True False) (respond (plain_response 200 ''page''))
       (http_request ''GET'' ''/account'' [])
     = respond (RedirectResponse ''/signin?next=/account'' 303) (http_request ''GET'' ''/account'' [])"
proof -
  have a: "stype (http_request ''GET'' ''/signin'' []) = ''http''"
    "\<not> (\<exists>p \<in> set static_prefixes. startswith (path (http_request ''GET'' ''/signin'' [])) p)"
    "has_providers (setup_auth False True) \<longrightarrow>
       auth_providers (setup_auth False True) (http_request ''GET'' ''/signin'' []) = None"
    "\<not> is_public_route (setup_auth False True) (path (http_request ''GET'' ''/signin'' []))"
    using ev_static_signin by (simp_all add: http_request_def setup_auth_def)
  have b: "stype (http_request ''GET'' ''/account'' []) = ''http''"
    "\<not> (\<exists>p \<in> set static_prefixes. startswith (path (http_request ''GET'' ''/account'' [])) p)"
    "has_providers (setup_auth True False) \<longrightarrow>
       auth_providers (setup_auth True False) (http_request ''GET'' ''/account'' []) = None"
    "\<not> is_public_route (setup_auth True False) (path (http_request ''GET'' ''/account'' []))"
    using ev_static_account by (simp_all add: http_request_def setup_auth_def)
  show ?thesis
    using auth_redirects [OF a, of "respond (plain_response 200 ''page'')"]
      auth_redirects [OF b, of "respond (plain_response 200 ''page'')"]
    by (simp add: http_request_def setup_auth_def)
qed

text \<open>
  Claim C7 as stated redirects every unauthenticated request to a private route. With all
  routes private, \<^verbatim>\<open>/css/app.css\<close> is private, yet the check of the static prefixes (line
  196) hands the request to the wrapped application, which answers with status 200.
\<close>

theorem auth_static_private_counterexample:
  "is_private_route (setup_auth True False) ''/css/app.css''
   \<and> \<not> is_authenticated (setup_auth True False) (http_request ''GET'' ''/css/app.css'' [])
   \<and> on_auth_failure (setup_auth True False) = None
   \<and> AuthMiddleware_call (setup_auth True False) (respond (plain_response 200 ''body {}''))
       (http_request ''GET'' ''/css/app.css'' [])
     = respond (plain_response 200 ''body {}'') (http_request ''GET'' ''/css/app.css'' [])
   \<and> map mstatus (sent (AuthMiddleware_call (setup_auth True False)
       (respond (plain_response 200 ''body {}'')) (http_request ''GET'' ''/css/app.css'' []))) = [200, 200]"
  using ev_static_css
  by (simp add: AuthMiddleware_call_def http_request_def setup_auth_def
      respond_def response_messages_def plain_response_def)

text \<open>
  Claim C1, with the order the registration gives. The calls of \<^verbatim>\<open>add_middleware\<close> in
  lines 553 to 557 leave the list session, CSRF, Auth, RPC, and the stack built from it
  runs the session layer first, then \<^verbatim>\<open>CSRFMiddleware\<close>, then \<^verbatim>\<open>AuthMiddleware\<close>, then
  \<^verbatim>\<open>RPCMiddleware\<close>, then the router: the class added last runs first.
\<close>

theorem middleware_order:
  "user_middleware = [SessionMiddleware, CSRFMiddleware, AuthMiddleware, RPCMiddleware]
   \<and> build_middleware_stack env user_middleware router
       = session_middleware env
           (CSRFMiddleware_call (IS_PRODUCTION env) (token_hex env)
             (AuthMiddleware_call (auth env)
               (RPCMiddleware_call (handle_rpc_request env) router)))"
  by (simp add: user_middleware_def add_middleware_def build_middleware_stack_def)

text \<open>
  Claim C1 as stated runs the RPC check first, then Auth, then CSRF. An unauthenticated
  RPC call to a private route tells the two orders apart: the stack as registered answers
  with the redirect of \<^verbatim>\<open>AuthMiddleware\<close>, status 303, and the RPC handler is not reached;
  in the stated order the RPC handler would answer with status 200.
\<close>

theorem middleware_order_counterexample:
  "map mstatus (sent (build_middleware_stack sample_stack user_middleware
       (respond (plain_response 200 ''page''))
       (http_request ''POST'' ''/account'' [(''x-pp-rpc'', ''true'')]))) = [303, 303]
   \<and> map mstatus (sent (RPCMiddleware_call (handle_rpc_request sample_stack)
       (AuthMiddleware_call (auth sample_stack)
         (CSRFMiddleware_call (IS_PRODUCTION sample_stack) (token_hex sample_stack)
           (respond (plain_response 200 ''page''))))
       (http_request ''POST'' ''/account'' [(''x-pp-rpc'', ''true'')]))) = [200, 200]"
  using ev_static_account
  by (simp add: user_middleware_def add_middleware_def build_middleware_stack_def sample_stack_def
      CSRFMiddleware_call_def AuthMiddleware_call_def route_checks_def RPCMiddleware_call_def
      http_request_def setup_auth_def headers_get_def ev_lower_rpc ensure_csrf_token_def
      respond_def response_messages_def plain_response_def RedirectResponse_def
      send_wrapper_def Let_def)

section \<open>Properties of the page routes\<close>

lemma set_header_keeps:
  "body (set_header k v r) = body r" "status_code (set_header k v r) = status_code r"
  by (simp_all add: set_header_def Let_def)

lemma HTMLResponse_fields:
  "body (HTMLResponse c s) = [c]" "status_code (HTMLResponse c s) = s"
  by (simp_all add: HTMLResponse_def)

lemma render_and_save_effects:
  "render_and_save env fp req effs st = (effs', res) \<Longrightarrow>
     (case res of
        Inl e \<Rightarrow> effs' = effs
      | Inr resp \<Rightarrow> \<exists>html. body resp = [html] \<and> status_code resp = 200
          \<and> effs' = effs @ (if should_cache (CACHE_ENABLED env) (req_should_cache st) \<and> http_method req = ''GET''
                            then [SaveCache (path req) html
                                    (ttl_to_save (DEFAULT_TTL env) (req_cache_ttl st))]
                            else []))"
  unfolding render_and_save_def Let_def
  by (auto simp add: set_header_keeps HTMLResponse_fields split: sum.splits if_split_asm)

lemma py_branch_effects:
  "py_branch env fp req = (effs, res) \<Longrightarrow> \<forall>u c t. SaveCache u c t \<notin> set effs"
  by (auto simp add: py_branch_def Let_def split: sum.splits option.splits page_phase.splits)

lemma py_branch_state:
  "py_branch env fp req = (effs, Inr (Inr st)) \<Longrightarrow> load_route_module env fp = Inr m \<Longrightarrow>
     req_should_cache st = (case cache_settings m of None \<Rightarrow> None | Some cs \<Rightarrow> enabled cs)
     \<and> req_cache_ttl st = (case cache_settings m of None \<Rightarrow> 0 | Some cs \<Rightarrow> ttl cs)"
  by (auto simp add: py_branch_def Let_def split: sum.splits option.splits page_phase.splits)

lemma make_handler_miss:
  "\<not> (http_method req = ''GET'' \<and> (\<exists>c. serve_cache env (path req) (DEFAULT_TTL env) = Some c \<and> c \<noteq> []))
     \<Longrightarrow> make_handler env fp req = render_route env fp req"
  by (auto simp add: make_handler_def split: option.splits)

lemma make_handler_hit:
  "http_method req = ''GET'' \<Longrightarrow> serve_cache env (path req) (DEFAULT_TTL env) = Some c \<Longrightarrow> c \<noteq> []
     \<Longrightarrow> make_handler env fp req = ([], Inr (HTMLResponse c 200))"
  by (simp add: make_handler_def)

lemma render_route_py:
  "endswith fp ''.py'' \<Longrightarrow> py_branch env fp req = (effs, r) \<Longrightarrow>
     render_route env fp req =
       (case r of Inl e \<Rightarrow> (effs, Inl e) | Inr (Inl resp) \<Rightarrow> (effs, Inr resp)
        | Inr (Inr st) \<Rightarrow> render_and_save env fp req effs st)"
  by (simp add: render_route_def split: sum.splits)

lemma py_branch_returned:
  assumes "load_route_module env fp = Inr m" and "page m = Some pg"
    and "bind_query (builtins env) req (parameters pg)
           (if ''request'' \<in> fst ` set (parameters pg) then [(''request'', PyRequest req)] else []) = Inr kw"
    and "returned (call pg (if path_params req = [] then [] else [PyDict (path_kwargs req)]) kw) = Inr result"
  shows "py_branch env fp req =
     ([LoadModule fp, CallPage (if path_params req = [] then [] else [PyDict (path_kwargs req)]) kw],
      (case page_result (str_of env) (SSE env) result of
         Inl e \<Rightarrow> Inl e
       | Inr (Return r) \<Rightarrow> Inr (Inl r)
       | Inr (Rendered c props) \<Rightarrow>
           Inr (Inr \<lparr>content = c, layout_props = props,
                     meta = dict_update (dict_update [] (extract_meta (metadata m)))
                              (extract_meta (runtime_metadata
                                 (call pg (if path_params req = [] then [] else [PyDict (path_kwargs req)]) kw))),
                     req_should_cache = (case cache_settings m of None \<Rightarrow> None | Some cs \<Rightarrow> enabled cs),
                     req_cache_ttl = (case cache_settings m of None \<Rightarrow> 0 | Some cs \<Rightarrow> ttl cs)\<rparr>)))"
  using assms by (simp add: py_branch_def Let_def split: sum.splits page_phase.splits)

lemma map_of_replace_header:
  "k \<in> fst ` set hs \<Longrightarrow> map_of (replace_header k v hs) k = Some v"
  by (induction hs) auto

lemma map_of_append_new:
  "k \<notin> fst ` set hs \<Longrightarrow> map_of (hs @ [(k, v)]) k = Some v"
  by (induction hs) auto

lemma set_header_get: "headers_get (raw_headers (set_header k v r)) k = Some v"
  by (simp add: set_header_def headers_get_def Let_def map_of_replace_header map_of_append_new
      del: map_of_append)

lemma ev_lower_layout: "lower ''X-PP-Root-Layout'' = ''x-pp-root-layout''" by code_simp

lemma HTMLResponse_no_layout: "headers_get (raw_headers (HTMLResponse c s)) ''X-PP-Root-Layout'' = None"
  by (simp add: HTMLResponse_def headers_get_def ev_lower_layout)

lemma render_and_save_header:
  "render_and_save env fp req effs st = (effs', Inr resp) \<Longrightarrow>
     \<exists>root. headers_get (raw_headers resp) ''X-PP-Root-Layout'' = Some root"
  unfolding render_and_save_def Let_def
  by (auto simp add: set_header_get split: sum.splits if_split_asm)

lemma render_and_save_new_save:
  assumes "render_and_save env fp req effs st = (effs', res)"
    and "SaveCache u c t \<in> set effs'" and "SaveCache u c t \<notin> set effs"
  shows "http_method req = ''GET'' \<and> u = path req
         \<and> should_cache (CACHE_ENABLED env) (req_should_cache st)
         \<and> t = ttl_to_save (DEFAULT_TTL env) (req_cache_ttl st)
         \<and> (\<exists>resp. res = Inr resp \<and> body resp = [c])"
proof (cases res)
  case (Inl e)
  with render_and_save_effects [OF assms(1)] assms(2,3) show ?thesis by simp
next
  case (Inr resp)
  with render_and_save_effects [OF assms(1)] assms(2,3) show ?thesis
    by (auto split: if_split_asm)
qed

lemma make_handler_save:
  assumes "SaveCache u c t \<in> set (fst (make_handler env fp req))"
  shows "http_method req = ''GET'' \<and> u = path req
         \<and> (\<exists>resp. snd (make_handler env fp req) = Inr resp \<and> body resp = [c])
         \<and> (endswith fp ''.py'' \<longrightarrow>
              (\<exists>effs st. py_branch env fp req = (effs, Inr (Inr st))
                 \<and> should_cache (CACHE_ENABLED env) (req_should_cache st)
                 \<and> t = ttl_to_save (DEFAULT_TTL env) (req_cache_ttl st)))"
proof -
  have miss: "\<not> (http_method req = ''GET'' \<and> (\<exists>c. serve_cache env (path req) (DEFAULT_TTL env) = Some c \<and> c \<noteq> []))"
  proof
    assume "http_method req = ''GET'' \<and> (\<exists>c. serve_cache env (path req) (DEFAULT_TTL env) = Some c \<and> c \<noteq> [])"
    then obtain c0 where "http_method req = ''GET''"
      "serve_cache env (path req) (DEFAULT_TTL env) = Some c0" "c0 \<noteq> []" by blast
    then have "fst (make_handler env fp req) = []" by (simp add: make_handler_hit)
    with assms show False by simp
  qed
  then have mh: "make_handler env fp req = render_route env fp req" by (rule make_handler_miss)
  show ?thesis
  proof (cases "endswith fp ''.py''")
    case True
    obtain effs r where pb: "py_branch env fp req = (effs, r)" by (cases "py_branch env fp req")
    have nosave: "SaveCache u c t \<notin> set effs" using py_branch_effects [OF pb] by simp
    note rr = render_route_py [OF True pb]
    show ?thesis
    proof (cases r)
      case (Inl e)
      with rr mh assms nosave show ?thesis by simp
    next
      case (Inr x)
      show ?thesis
      proof (cases x)
        case (Inl resp)
        with Inr rr mh assms nosave show ?thesis by simp
      next
        case (Inr st)
        obtain effs' res where rs: "render_and_save env fp req effs st = (effs', res)"
          by (cases "render_and_save env fp req effs st")
        with \<open>r = Inr x\<close> Inr rr mh have m: "make_handler env fp req = (effs', res)" by simp
        with assms have "SaveCache u c t \<in> set effs'" by simp
        from render_and_save_new_save [OF rs this nosave] m pb \<open>r = Inr x\<close> Inr True
        show ?thesis by auto
      qed
    qed
  next
    case False
    show ?thesis
    proof (cases "load_template_file env fp")
      case (Inl e)
      with False mh assms show ?thesis by (simp add: render_route_def)
    next
      case (Inr c0)
      let ?st = "\<lparr>content = c0, layout_props = [], meta = [],
                  req_should_cache = None, req_cache_ttl = 0\<rparr> :: 'a page_state"
      obtain effs' res where rs: "render_and_save env fp req [] ?st = (effs', res)"
        by (cases "render_and_save env fp req [] ?st")
      with Inr False mh have m: "make_handler env fp req = (effs', res)"
        by (simp add: render_route_def)
      with assms have "SaveCache u c t \<in> set effs'" by simp
      from render_and_save_new_save [OF rs this] m False show ?thesis by auto
    qed
  qed
qed

lemma make_handler_rendered:
  assumes "endswith fp ''.py''" and "load_route_module env fp = Inr m"
    and "py_branch env fp req = (effs, Inr (Inr st))"
    and "\<not> (http_method req = ''GET'' \<and> (\<exists>c. serve_cache env (path req) (DEFAULT_TTL env) = Some c \<and> c \<noteq> []))"
    and "make_handler env fp req = (effs', Inr resp)"
  shows "\<exists>html. body resp = [html] \<and>
      effs' = effs @
        (if (case cache_settings m of None \<Rightarrow> CACHE_ENABLED env
             | Some cs \<Rightarrow> (case enabled cs of None \<Rightarrow> CACHE_ENABLED env | Some b \<Rightarrow> b))
            \<and> http_method req = ''GET''
         then [SaveCache (path req) html
                 (case cache_settings m of None \<Rightarrow> DEFAULT_TTL env
                  | Some cs \<Rightarrow> if 0 < ttl cs then ttl cs else DEFAULT_TTL env)]
         else [])"
proof -
  have "make_handler env fp req = render_and_save env fp req effs st"
    using make_handler_miss [OF assms(4)] render_route_py [OF assms(1,3)] by simp
  with assms(5) have rs: "render_and_save env fp req effs st = (effs', Inr resp)" by simp
  have sc: "should_cache (CACHE_ENABLED env) (req_should_cache st) =
              (case cache_settings m of None \<Rightarrow> CACHE_ENABLED env
               | Some cs \<Rightarrow> (case enabled cs of None \<Rightarrow> CACHE_ENABLED env | Some b \<Rightarrow> b))"
    using py_branch_state [OF assms(3,2)] by (auto simp add: should_cache_def split: option.splits)
  have tt: "ttl_to_save (DEFAULT_TTL env) (req_cache_ttl st) =
              (case cache_settings m of None \<Rightarrow> DEFAULT_TTL env
               | Some cs \<Rightarrow> if 0 < ttl cs then ttl cs else DEFAULT_TTL env)"
    using py_branch_state [OF assms(3,2)] by (auto simp add: ttl_to_save_def split: option.splits)
  from render_and_save_effects [OF rs] show ?thesis by (auto simp add: sc tt)
qed

lemma py_branch_early_return:
  assumes "load_route_module env fp = Inr m" and "page m = Some pg"
    and "bind_query (builtins env) req (parameters pg)
           (if ''request'' \<in> fst ` set (parameters pg) then [(''request'', PyRequest req)] else []) = Inr kw"
    and "returned (call pg (if path_params req = [] then [] else [PyDict (path_kwargs req)]) kw) = Inr result"
    and "(\<exists>r. result = PyResponse r) \<or> (\<exists>g. result = PyGenerator g) \<or> (\<exists>g. result = PyAsyncGen g)"
  shows "\<exists>effs r. py_branch env fp req = (effs, Inr (Inl r))"
  using assms(5) py_branch_returned [OF assms(1-4)] by auto

lemma make_handler_template:
  assumes "\<not> endswith fp ''.py''"
    and "\<not> (http_method req = ''GET'' \<and> (\<exists>c. serve_cache env (path req) (DEFAULT_TTL env) = Some c \<and> c \<noteq> []))"
    and "make_handler env fp req = (effs', Inr resp)"
  shows "\<exists>html. body resp = [html] \<and>
      effs' = (if CACHE_ENABLED env \<and> http_method req = ''GET''
               then [SaveCache (path req) html (DEFAULT_TTL env)] else [])"
proof (cases "load_template_file env fp")
  case (Inl e)
  with assms(1,3) make_handler_miss [OF assms(2), of fp] show ?thesis
    by (simp add: render_route_def)
next
  case (Inr c0)
  let ?st = "\<lparr>content = c0, layout_props = [], meta = [],
              req_should_cache = None, req_cache_ttl = 0\<rparr> :: 'a page_state"
  from Inr assms(1,3) make_handler_miss [OF assms(2), of fp]
  have rs: "render_and_save env fp req [] ?st = (effs', Inr resp)"
    by (simp add: render_route_def)
  from render_and_save_effects [OF rs] show ?thesis
    by (auto simp add: should_cache_def ttl_to_save_def)
qed

lemma ev_endswith_index: "endswith ''index.py'' ''.py''"
  by (simp add: endswith_def)

lemma ev_py_branch_hi:
  "py_branch (sample_env None ce (sample_module (PyStr ''hi'') cs)) ''index.py''
       (http_request me ''/about'' [])
     = ([LoadModule ''index.py'', CallPage [] []],
        Inr (Inr \<lparr>content = ''hi'', layout_props = [], meta = [],
                  req_should_cache = (case cs of None \<Rightarrow> None | Some x \<Rightarrow> enabled x),
                  req_cache_ttl = (case cs of None \<Rightarrow> 0 | Some x \<Rightarrow> ttl x)\<rparr>))"
  by (simp add: py_branch_def sample_env_def sample_module_def sample_str_def http_request_def
      extract_meta_def dict_update_def Let_def)

lemma ev_render_hi:
  "render_and_save (sample_env None ce m) ''index.py'' (http_request me ''/about'' []) effs
       \<lparr>content = ''hi'', layout_props = [], meta = [], req_should_cache = rsc, req_cache_ttl = rt\<rparr>
     = (effs @ (if should_cache ce rsc \<and> me = ''GET''
                then [SaveCache ''/about'' ''<main>hi</main>'' (ttl_to_save 600 rt)] else []),
        Inr (set_header ''X-PP-Root-Layout'' ''root'' (HTMLResponse ''<main>hi</main>'' 200)))"
  by (simp add: render_and_save_def sample_env_def http_request_def Let_def)

lemma ev_make_handler_hi:
  "make_handler (sample_env None ce (sample_module (PyStr ''hi'') cs)) ''index.py''
       (http_request me ''/about'' [])
     = ([LoadModule ''index.py'', CallPage [] []]
          @ (if should_cache ce (case cs of None \<Rightarrow> None | Some x \<Rightarrow> enabled x) \<and> me = ''GET''
             then [SaveCache ''/about'' ''<main>hi</main>''
                     (ttl_to_save 600 (case cs of None \<Rightarrow> 0 | Some x \<Rightarrow> ttl x))] else []),
        Inr (set_header ''X-PP-Root-Layout'' ''root'' (HTMLResponse ''<main>hi</main>'' 200)))"
proof -
  have "make_handler (sample_env None ce (sample_module (PyStr ''hi'') cs)) ''index.py''
          (http_request me ''/about'' [])
        = render_route (sample_env None ce (sample_module (PyStr ''hi'') cs)) ''index.py''
            (http_request me ''/about'' [])"
    by (rule make_handler_miss) (simp add: sample_env_def)
  then show ?thesis
    by (simp add: render_route_py [OF ev_endswith_index ev_py_branch_hi] ev_render_hi)
qed

lemma ev_make_handler_response:
  "make_handler (sample_env None True
        (sample_module (PyResponse (plain_response 201 ''made'')) (Some \<lparr>enabled = Some True, ttl = 60\<rparr>)))
        ''index.py'' (http_request ''GET'' ''/about'' [])
     = ([LoadModule ''index.py'', CallPage [] []], Inr (plain_response 201 ''made''))"
  by (simp add: make_handler_def render_route_def ev_endswith_index py_branch_def
      sample_env_def sample_module_def http_request_def Let_def)


lemma make_handler_rendered_header:
  assumes "\<not> (http_method req = ''GET''
            \<and> (\<exists>c. serve_cache env (path req) (DEFAULT_TTL env) = Some c \<and> c \<noteq> []))"
    and "make_handler env fp req = (effs', Inr resp)"
    and "endswith fp ''.py'' \<longrightarrow> (\<exists>effs st. py_branch env fp req = (effs, Inr (Inr st)))"
  shows "\<exists>root. headers_get (raw_headers resp) ''X-PP-Root-Layout'' = Some root"
proof -
  have mh: "make_handler env fp req = render_route env fp req" by (rule make_handler_miss [OF assms(1)])
  show ?thesis
  proof (cases "endswith fp ''.py''")
    case True
    with assms(3) obtain effs st where pb: "py_branch env fp req = (effs, Inr (Inr st))" by blast
    have "render_and_save env fp req effs st = (effs', Inr resp)"
      using mh assms(2) render_route_py [OF True pb] by simp
    then show ?thesis by (rule render_and_save_header)
  next
    case False
    show ?thesis
    proof (cases "load_template_file env fp")
      case (Inl e)
      with False mh assms(2) show ?thesis by (simp add: render_route_def)
    next
      case (Inr c0)
      with False mh assms(2) have "render_and_save env fp req []
          \<lparr>content = c0, layout_props = [], meta = [], req_should_cache = None, req_cache_ttl = 0\<rparr>
          = (effs', Inr resp)"
        by (simp add: render_route_def)
      then show ?thesis by (rule render_and_save_header)
    qed
  qed
qed

text \<open>
  Claim C10, for a cache entry with content. For a GET request for which
  \<^verbatim>\<open>CacheHandler.serve_cache\<close> returns a non-empty string, \<^verbatim>\<open>make_handler\<close> returns the
  response \<^verbatim>\<open>HTMLResponse(content=cached_resp)\<close> and does nothing else: no route module is
  loaded and no page function is called. That response has no \<^verbatim>\<open>X-PP-Root-Layout\<close>
  header. When the cache does not answer and a page is rendered, from a template or from
  what a page function returned, the response does carry that header.
\<close>

theorem cache_hit_response:
  "(http_method req = ''GET'' \<and> serve_cache env (path req) (DEFAULT_TTL env) = Some c \<and> c \<noteq> [] \<longrightarrow>
      make_handler env fp req = ([], Inr (HTMLResponse c 200))
      \<and> headers_get (raw_headers (HTMLResponse c 200)) ''X-PP-Root-Layout'' = None)
   \<and> (\<not> (http_method req = ''GET''
            \<and> (\<exists>c. serve_cache env (path req) (DEFAULT_TTL env) = Some c \<and> c \<noteq> []))
        \<and> make_handler env fp req = (effs', Inr resp)
        \<and> (endswith fp ''.py'' \<longrightarrow> (\<exists>effs st. py_branch env fp req = (effs, Inr (Inr st)))) \<longrightarrow>
         (\<exists>root. headers_get (raw_headers resp) ''X-PP-Root-Layout'' = Some root))"
  using make_handler_rendered_header [of req env fp effs' resp]
  by (simp add: make_handler_hit HTMLResponse_no_layout)

text \<open>
  A page answered from the cache, and the same page rendered when the cache is empty.
\<close>

theorem cache_hit_response_witness:
  "make_handler (sample_env (Some ''<p>cached</p>'') False (sample_module (PyStr ''hi'') None))
       ''index.py'' (http_request ''GET'' ''/about'' [])
     = ([], Inr (HTMLResponse ''<p>cached</p>'' 200))
   \<and> headers_get (raw_headers (HTMLResponse ''<p>cached</p>'' 200)) ''X-PP-Root-Layout'' = None
   \<and> make_handler (sample_env None False (sample_module (PyStr ''hi'') None))
       ''index.py'' (http_request ''GET'' ''/about'' [])
     = ([LoadModule ''index.py'', CallPage [] []],
        Inr (set_header ''X-PP-Root-Layout'' ''root'' (HTMLResponse ''<main>hi</main>'' 200)))
   \<and> headers_get (raw_headers (set_header ''X-PP-Root-Layout'' ''root''
         (HTMLResponse ''<main>hi</main>'' 200))) ''X-PP-Root-Layout'' = Some ''root''"
proof -
  let ?hit = "sample_env (Some ''<p>cached</p>'') False (sample_module (PyStr ''hi'') None)"
  let ?miss = "sample_env None False (sample_module (PyStr ''hi'') None)"
  let ?req = "http_request ''GET'' ''/about'' []"
  let ?resp = "set_header ''X-PP-Root-Layout'' ''root'' (HTMLResponse ''<main>hi</main>'' 200)"
  let ?effs = "[LoadModule ''index.py'', CallPage [] []] :: unit effect list"
  have h: "http_method ?req = ''GET'' \<and> serve_cache ?hit (path ?req) (DEFAULT_TTL ?hit) = Some ''<p>cached</p>''
      \<and> ''<p>cached</p>'' \<noteq> []"
    by (simp add: sample_env_def http_request_def)
  note hit = cache_hit_response [where req = ?req and env = ?hit and c = "''<p>cached</p>''"
      and fp = "''index.py''", THEN conjunct1, THEN mp, OF h]
  have mh: "make_handler ?miss ''index.py'' ?req = (?effs, Inr ?resp)"
    by (simp add: ev_make_handler_hi should_cache_def)
  have m1: "\<not> (http_method ?req = ''GET''
            \<and> (\<exists>c. serve_cache ?miss (path ?req) (DEFAULT_TTL ?miss) = Some c \<and> c \<noteq> []))"
    by (simp add: sample_env_def)
  have m3: "\<exists>effs st. py_branch ?miss ''index.py'' ?req = (effs, Inr (Inr st))"
    by (simp add: ev_py_branch_hi)
  have m: "\<not> (http_method ?req = ''GET''
            \<and> (\<exists>c. serve_cache ?miss (path ?req) (DEFAULT_TTL ?miss) = Some c \<and> c \<noteq> []))
        \<and> make_handler ?miss ''index.py'' ?req = (?effs, Inr ?resp)
        \<and> (endswith ''index.py'' ''.py'' \<longrightarrow>
              (\<exists>effs st. py_branch ?miss ''index.py'' ?req = (effs, Inr (Inr st))))"
    using m1 mh m3 by blast
  note miss = cache_hit_response [where req = ?req and env = ?miss and fp = "''index.py''"
      and effs' = ?effs and resp = ?resp, THEN conjunct2, THEN mp, OF m]
  have "headers_get (raw_headers ?resp) ''X-PP-Root-Layout'' = Some ''root''"
    by (rule set_header_get)
  with hit mh miss show ?thesis by simp
qed

text \<open>
  Claim C10 as stated answers from the cache whenever the URI has a live entry. Line 367
  tests the cached content for truth, so an entry whose content is the empty string is
  passed over: the route module is loaded, the page function is called and the page
  rendered from it is returned.
\<close>

theorem cache_hit_empty_counterexample:
  "http_method (http_request ''GET'' ''/about'' []) = ''GET''
   \<and> serve_cache (sample_env (Some []) False (sample_module (PyStr ''hi'') None))
        (path (http_request ''GET'' ''/about'' [])) 600 = Some []
   \<and> make_handler (sample_env (Some []) False (sample_module (PyStr ''hi'') None))
        ''index.py'' (http_request ''GET'' ''/about'' [])
      = ([LoadModule ''index.py'', CallPage [] []],
         Inr (set_header ''X-PP-Root-Layout'' ''root'' (HTMLResponse ''<main>hi</main>'' 200)))"
proof -
  have e: "endswith ''index.py'' ''.py''" by (simp add: endswith_def)
  show ?thesis
    by (simp add: make_handler_def render_route_def e py_branch_def render_and_save_def
        sample_env_def sample_module_def sample_str_def http_request_def should_cache_def Let_def)
qed

text \<open>
  Claim C2. The decision of lines 463 to 469 is true for \<^verbatim>\<open>enabled = True\<close>, false for
  \<^verbatim>\<open>enabled = False\<close> and the global flag \<^verbatim>\<open>CACHE_ENABLED\<close> otherwise, and the time to live
  is the one the page declares when it is positive and \<^verbatim>\<open>DEFAULT_TTL\<close> otherwise. For a
  \<^verbatim>\<open>.py\<close> route whose page was rendered, with no answer from the cache: nothing is saved
  up to the rendering, and then the rendered page is saved under the path of the request
  with that time to live, exactly when the request is a GET request and the settings of
  the module say so, or the global flag where the module has no settings or \<^verbatim>\<open>enabled\<close>
  is not a boolean. Every save that \<^verbatim>\<open>make_handler\<close> makes belongs to a GET request,
  stores the body of the response returned, and on a \<^verbatim>\<open>.py\<close> route follows a page that
  was rendered. When the page function returns a response object, a generator or an async
  generator, nothing is saved. A template route declares nothing: it is saved by the
  global flag with the default time to live.
\<close>

theorem cache_save_decision:
  "should_cache g (Some True) \<and> \<not> should_cache g (Some False) \<and> should_cache g None = g
   \<and> ttl_to_save d t0 = (if 0 < t0 then t0 else d)
   \<and> (endswith fp ''.py'' \<and> load_route_module env fp = Inr m
        \<and> py_branch env fp req = (effs, Inr (Inr st))
        \<and> \<not> (http_method req = ''GET''
              \<and> (\<exists>c. serve_cache env (path req) (DEFAULT_TTL env) = Some c \<and> c \<noteq> []))
        \<and> make_handler env fp req = (effs', Inr resp) \<longrightarrow>
          (\<forall>u c t. SaveCache u c t \<notin> set effs)
          \<and> (\<exists>html. body resp = [html] \<and>
                effs' = effs @
                  (if (case cache_settings m of None \<Rightarrow> CACHE_ENABLED env
                       | Some cs \<Rightarrow> (case enabled cs of None \<Rightarrow> CACHE_ENABLED env | Some b \<Rightarrow> b))
                      \<and> http_method req = ''GET''
                   then [SaveCache (path req) html
                           (case cache_settings m of None \<Rightarrow> DEFAULT_TTL env
                            | Some cs \<Rightarrow> if 0 < ttl cs then ttl cs else DEFAULT_TTL env)]
                   else [])))
   \<and> (SaveCache u c t \<in> set (fst (make_handler env fp req)) \<longrightarrow>
          http_method req = ''GET'' \<and> u = path req
          \<and> (\<exists>resp. snd (make_handler env fp req) = Inr resp \<and> body resp = [c])
          \<and> (endswith fp ''.py'' \<longrightarrow> (\<exists>effs st. py_branch env fp req = (effs, Inr (Inr st)))))
   \<and> (endswith fp ''.py'' \<and> load_route_module env fp = Inr m \<and> page m = Some pg
        \<and> bind_query (builtins env) req (parameters pg)
             (if ''request'' \<in> fst ` set (parameters pg) then [(''request'', PyRequest req)] else [])
            = Inr kw
        \<and> returned (call pg (if path_params req = [] then [] else [PyDict (path_kwargs req)]) kw)
            = Inr result
        \<and> ((\<exists>r. result = PyResponse r) \<or> (\<exists>gen. result = PyGenerator gen)
              \<or> (\<exists>gen. result = PyAsyncGen gen)) \<longrightarrow>
          (\<forall>u c t. SaveCache u c t \<notin> set (fst (make_handler env fp req))))
   \<and> (\<not> endswith fp ''.py''
        \<and> \<not> (http_method req = ''GET''
              \<and> (\<exists>c. serve_cache env (path req) (DEFAULT_TTL env) = Some c \<and> c \<noteq> []))
        \<and> make_handler env fp req = (effs', Inr resp) \<longrightarrow>
          (\<exists>html. body resp = [html] \<and>
              effs' = (if CACHE_ENABLED env \<and> http_method req = ''GET''
                       then [SaveCache (path req) html (DEFAULT_TTL env)] else [])))"
proof (intro conjI impI)
  show "should_cache g (Some True)" "\<not> should_cache g (Some False)" "should_cache g None = g"
    by (simp_all add: should_cache_def)
  show "ttl_to_save d t0 = (if 0 < t0 then t0 else d)" by (simp add: ttl_to_save_def)
next
  assume a: "endswith fp ''.py'' \<and> load_route_module env fp = Inr m
        \<and> py_branch env fp req = (effs, Inr (Inr st))
        \<and> \<not> (http_method req = ''GET''
              \<and> (\<exists>c. serve_cache env (path req) (DEFAULT_TTL env) = Some c \<and> c \<noteq> []))
        \<and> make_handler env fp req = (effs', Inr resp)"
  then show "\<forall>u c t. SaveCache u c t \<notin> set effs" using py_branch_effects by blast
  from a have a1: "endswith fp ''.py''" and a2: "load_route_module env fp = Inr m"
    and a3: "py_branch env fp req = (effs, Inr (Inr st))"
    and a4: "\<not> (http_method req = ''GET''
              \<and> (\<exists>c. serve_cache env (path req) (DEFAULT_TTL env) = Some c \<and> c \<noteq> []))"
    and a5: "make_handler env fp req = (effs', Inr resp)" by blast+
  show "\<exists>html. body resp = [html] \<and>
                effs' = effs @
                  (if (case cache_settings m of None \<Rightarrow> CACHE_ENABLED env
                       | Some cs \<Rightarrow> (case enabled cs of None \<Rightarrow> CACHE_ENABLED env | Some b \<Rightarrow> b))
                      \<and> http_method req = ''GET''
                   then [SaveCache (path req) html
                           (case cache_settings m of None \<Rightarrow> DEFAULT_TTL env
                            | Some cs \<Rightarrow> if 0 < ttl cs then ttl cs else DEFAULT_TTL env)]
                   else [])"
    by (rule make_handler_rendered [OF a1 a2 a3 a4 a5])
next
  assume s: "SaveCache u c t \<in> set (fst (make_handler env fp req))"
  from make_handler_save [OF s]
  show "http_method req = ''GET''" "u = path req"
    "\<exists>resp. snd (make_handler env fp req) = Inr resp \<and> body resp = [c]"
    by blast+
  assume "endswith fp ''.py''"
  with make_handler_save [OF s] show "\<exists>effs st. py_branch env fp req = (effs, Inr (Inr st))"
    by blast
next
  assume a: "endswith fp ''.py'' \<and> load_route_module env fp = Inr m \<and> page m = Some pg
        \<and> bind_query (builtins env) req (parameters pg)
             (if ''request'' \<in> fst ` set (parameters pg) then [(''request'', PyRequest req)] else [])
            = Inr kw
        \<and> returned (call pg (if path_params req = [] then [] else [PyDict (path_kwargs req)]) kw)
            = Inr result
        \<and> ((\<exists>r. result = PyResponse r) \<or> (\<exists>gen. result = PyGenerator gen)
              \<or> (\<exists>gen. result = PyAsyncGen gen))"
  then obtain effs0 r0 where early: "py_branch env fp req = (effs0, Inr (Inl r0))"
    using py_branch_early_return [of env fp m pg req kw result] by blast
  show "\<forall>u c t. SaveCache u c t \<notin> set (fst (make_handler env fp req))"
  proof (intro allI notI)
    fix u c t
    assume "SaveCache u c t \<in> set (fst (make_handler env fp req))"
    from make_handler_save [OF this] a early show False by auto
  qed
next
  assume "\<not> endswith fp ''.py''
        \<and> \<not> (http_method req = ''GET''
              \<and> (\<exists>c. serve_cache env (path req) (DEFAULT_TTL env) = Some c \<and> c \<noteq> []))
        \<and> make_handler env fp req = (effs', Inr resp)"
  then show "\<exists>html. body resp = [html] \<and>
              effs' = (if CACHE_ENABLED env \<and> http_method req = ''GET''
                       then [SaveCache (path req) html (DEFAULT_TTL env)] else [])"
    using make_handler_template [of fp req env effs' resp] by blast
qed

text \<open>
  A page with \<^verbatim>\<open>enabled = True\<close> and a time to live of 60 while the global flag is off;
  \<^verbatim>\<open>enabled = False\<close> while it is on; no declaration and no time to live; a POST request;
  a page that returns a response object; a template route.
\<close>

theorem cache_save_decision_witness:
  "fst (make_handler (sample_env None False
          (sample_module (PyStr ''hi'') (Some \<lparr>enabled = Some True, ttl = 60\<rparr>)))
        ''index.py'' (http_request ''GET'' ''/about'' []))
     = [LoadModule ''index.py'', CallPage [] [], SaveCache ''/about'' ''<main>hi</main>'' 60]
   \<and> fst (make_handler (sample_env None True
          (sample_module (PyStr ''hi'') (Some \<lparr>enabled = Some False, ttl = 60\<rparr>)))
        ''index.py'' (http_request ''GET'' ''/about'' []))
     = [LoadModule ''index.py'', CallPage [] []]
   \<and> fst (make_handler (sample_env None True
          (sample_module (PyStr ''hi'') (Some \<lparr>enabled = None, ttl = 0\<rparr>)))
        ''index.py'' (http_request ''GET'' ''/about'' []))
     = [LoadModule ''index.py'', CallPage [] [], SaveCache ''/about'' ''<main>hi</main>'' 600]
   \<and> fst (make_handler (sample_env None False
          (sample_module (PyStr ''hi'') (Some \<lparr>enabled = Some True, ttl = 60\<rparr>)))
        ''index.py'' (http_request ''POST'' ''/about'' []))
     = [LoadModule ''index.py'', CallPage [] []]
   \<and> fst (make_handler (sample_env None True
          (sample_module (PyResponse (plain_response 201 ''made'')) (Some \<lparr>enabled = Some True, ttl = 60\<rparr>)))
        ''index.py'' (http_request ''GET'' ''/about'' []))
     = [LoadModule ''index.py'', CallPage [] []]
   \<and> fst (make_handler (sample_env None True (sample_module (PyStr ''hi'') None))
        ''index.html'' (http_request ''GET'' ''/about'' []))
     = [SaveCache ''/about'' ''<main><p>static</p></main>'' 600]"
proof -
  let ?on = "Some \<lparr>enabled = Some True, ttl = 60\<rparr>"
  let ?env = "sample_env None False (sample_module (PyStr ''hi'') ?on)"
  let ?m = "sample_module (PyStr ''hi'') ?on"
  let ?req = "http_request ''GET'' ''/about'' []"
  let ?resp = "set_header ''X-PP-Root-Layout'' ''root'' (HTMLResponse ''<main>hi</main>'' 200)"
  let ?effs = "[LoadModule ''index.py'', CallPage [] []] :: unit effect list"
  let ?st = "\<lparr>content = ''hi'', layout_props = [], meta = [],
              req_should_cache = Some True, req_cache_ttl = 60\<rparr> :: unit page_state"
  have mh: "make_handler ?env ''index.py'' ?req
              = (?effs @ [SaveCache ''/about'' ''<main>hi</main>'' 60], Inr ?resp)"
    by (simp add: ev_make_handler_hi should_cache_def ttl_to_save_def)
  have pb: "py_branch ?env ''index.py'' ?req = (?effs, Inr (Inr ?st))"
    by (simp add: ev_py_branch_hi)
  have lm: "load_route_module ?env ''index.py'' = Inr ?m" by (simp add: sample_env_def)
  have miss: "\<not> (http_method ?req = ''GET''
      \<and> (\<exists>c. serve_cache ?env (path ?req) (DEFAULT_TTL ?env) = Some c \<and> c \<noteq> []))"
    by (simp add: sample_env_def)
  have first: "fst (make_handler ?env ''index.py'' ?req)
      = ?effs @ [SaveCache ''/about'' ''<main>hi</main>'' 60]"
    using cache_save_decision [of True 0 0 "''index.py''" ?env ?m ?req ?effs ?st
        "?effs @ [SaveCache ''/about'' ''<main>hi</main>'' 60]" ?resp]
      ev_endswith_index lm pb miss mh
    by simp
  have rendered: "SaveCache ''/about'' ''<main>hi</main>'' 60 \<in> set (fst (make_handler ?env ''index.py'' ?req))"
    using first by simp
  let ?envr = "sample_env None True
     (sample_module (PyResponse (plain_response 201 ''made'')) ?on)"
  have early: "fst (make_handler ?envr ''index.py'' ?req) = [LoadModule ''index.py'', CallPage [] []]"
    by (simp add: ev_make_handler_response)
  have template: "fst (make_handler (sample_env None True (sample_module (PyStr ''hi'') None))
        ''index.html'' ?req) = [SaveCache ''/about'' ''<main><p>static</p></main>'' 600]"
    by (simp add: make_handler_def render_route_def endswith_def render_and_save_def
        sample_env_def http_request_def should_cache_def ttl_to_save_def Let_def)
  show ?thesis
    using first early template
    by (simp add: ev_make_handler_hi should_cache_def ttl_to_save_def)
qed




section \<open>Properties of the handler of unhandled exceptions\<close>

text \<open>
  Claim C8. In production the response of the handler is the same whatever the traceback
  is, so nothing of the traceback reaches it. When \<^verbatim>\<open>error.html\<close> is read and rendered,
  the template gets \<^verbatim>\<open>error_trace\<close>, which is the traceback outside production and
  \<^verbatim>\<open>None\<close> in production, and the response is the page the layouts give, with status 500
  and the root layout header. When rendering the template or the layouts raises, and also
  when there is no \<^verbatim>\<open>error.html\<close>, the response is the inline page: status 500 and the
  body \<^verbatim>\<open><h1>500 - Internal Server Error</h1><p>message</p>\<close>, made of the message alone.
\<close>

theorem error_page_trace:
  "custom_general_exception_handler True ep render layouts req msg trace
     = custom_general_exception_handler True ep render layouts req msg trace'
   \<and> (ep = Some (Inr raw)
        \<and> render raw [(''request'', PyRequest req), (''error_message'', PyStr msg),
                       (''error_trace'', if is_prod then PyNone else PyStr trace)] = Inr rc
        \<and> layouts \<lparr>children = rc, route_dir = ''src/app'',
                    page_metadata_arg = [(''title'', ''Application Error''),
                       (''description'', ''An unexpected error occurred.'')],
                    page_layout_props = None,
                    context_data = [(''request'', PyRequest req), (''error_message'', PyStr msg),
                       (''error_trace'', if is_prod then PyNone else PyStr trace)]\<rparr> = Inr (html, root) \<longrightarrow>
        custom_general_exception_handler is_prod ep render layouts req msg trace
          = Inr (set_header ''X-PP-Root-Layout'' root (HTMLResponse html 500)))
   \<and> (ep = Some (Inr raw)
        \<and> render raw [(''request'', PyRequest req), (''error_message'', PyStr msg),
                       (''error_trace'', if is_prod then PyNone else PyStr trace)] = Inl e \<longrightarrow>
        custom_general_exception_handler is_prod ep render layouts req msg trace
          = Inr (fallback_500 msg))
   \<and> (ep = Some (Inr raw)
        \<and> render raw [(''request'', PyRequest req), (''error_message'', PyStr msg),
                       (''error_trace'', if is_prod then PyNone else PyStr trace)] = Inr rc
        \<and> layouts \<lparr>children = rc, route_dir = ''src/app'',
                    page_metadata_arg = [(''title'', ''Application Error''),
                       (''description'', ''An unexpected error occurred.'')],
                    page_layout_props = None,
                    context_data = [(''request'', PyRequest req), (''error_message'', PyStr msg),
                       (''error_trace'', if is_prod then PyNone else PyStr trace)]\<rparr> = Inl e \<longrightarrow>
        custom_general_exception_handler is_prod ep render layouts req msg trace
          = Inr (fallback_500 msg))
   \<and> custom_general_exception_handler is_prod None render layouts req msg trace = Inr (fallback_500 msg)
   \<and> status_code (fallback_500 msg) = 500
   \<and> body (fallback_500 msg) = [''<h1>500 - Internal Server Error</h1><p>'' @ msg @ ''</p>'']"
  by (simp add: custom_general_exception_handler_def fallback_500_def HTMLResponse_def Let_def)

text \<open>
  A template that prints the traceback after a colon, outside production and in
  production; a template that fails to render; layouts that fail.
\<close>

theorem error_page_trace_witness:
  "custom_general_exception_handler False (Some (Inr ''E''))
       (\<lambda>raw (ctx :: (string \<times> unit pyval) list).
          Inr (raw @ '':'' @ (case map_of ctx ''error_trace'' of Some (PyStr t) \<Rightarrow> t | _ \<Rightarrow> [])))
       (\<lambda>args :: unit render_args. Inr (children args, ''root''))
       (http_request ''GET'' ''/x'' []) ''boom'' ''tb''
     = Inr (set_header ''X-PP-Root-Layout'' ''root'' (HTMLResponse ''E:tb'' 500))
   \<and> custom_general_exception_handler True (Some (Inr ''E''))
       (\<lambda>raw (ctx :: (string \<times> unit pyval) list).
          Inr (raw @ '':'' @ (case map_of ctx ''error_trace'' of Some (PyStr t) \<Rightarrow> t | _ \<Rightarrow> [])))
       (\<lambda>args :: unit render_args. Inr (children args, ''root''))
       (http_request ''GET'' ''/x'' []) ''boom'' ''tb''
     = Inr (set_header ''X-PP-Root-Layout'' ''root'' (HTMLResponse ''E:'' 500))
   \<and> custom_general_exception_handler False (Some (Inr ''E''))
       (\<lambda>raw (ctx :: (string \<times> unit pyval) list). Inl (OtherError ''undefined''))
       (\<lambda>args :: unit render_args. Inr (children args, ''root''))
       (http_request ''GET'' ''/x'' []) ''boom'' ''tb''
     = Inr (fallback_500 ''boom'')
   \<and> custom_general_exception_handler False (Some (Inr ''E''))
       (\<lambda>raw (ctx :: (string \<times> unit pyval) list). Inr raw)
       (\<lambda>args :: unit render_args. Inl (OtherError ''layout''))
       (http_request ''GET'' ''/x'' []) ''boom'' ''tb''
     = Inr (fallback_500 ''boom'')
   \<and> body (fallback_500 ''boom'') = [''<h1>500 - Internal Server Error</h1><p>boom</p>'']"
proof -
  let ?req = "http_request ''GET'' ''/x'' []"
  let ?render = "\<lambda>raw (ctx :: (string \<times> unit pyval) list).
      (Inr (raw @ '':'' @ (case map_of ctx ''error_trace'' of Some (PyStr t) \<Rightarrow> t | _ \<Rightarrow> []))
        :: error + string)"
  let ?layouts = "\<lambda>args :: unit render_args. (Inr (children args, ''root'') :: error + string \<times> string)"
  have a: "custom_general_exception_handler False (Some (Inr ''E'')) ?render ?layouts ?req ''boom'' ''tb''
      = Inr (set_header ''X-PP-Root-Layout'' ''root'' (HTMLResponse ''E:tb'' 500))"
    using error_page_trace [where ep = "Some (Inr ''E'')" and raw = "''E''" and render = ?render
        and layouts = ?layouts and req = ?req and msg = "''boom''" and trace = "''tb''"
        and is_prod = False and rc = "''E:tb''" and html = "''E:tb''" and root = "''root''"]
    by simp
  have b: "custom_general_exception_handler True (Some (Inr ''E'')) ?render ?layouts ?req ''boom'' ''tb''
      = Inr (set_header ''X-PP-Root-Layout'' ''root'' (HTMLResponse ''E:'' 500))"
    using error_page_trace [where ep = "Some (Inr ''E'')" and raw = "''E''" and render = ?render
        and layouts = ?layouts and req = ?req and msg = "''boom''" and trace = "''tb''"
        and is_prod = True and rc = "''E:''" and html = "''E:''" and root = "''root''"]
    by simp
  have c: "custom_general_exception_handler False (Some (Inr ''E''))
       (\<lambda>raw (ctx :: (string \<times> unit pyval) list). Inl (OtherError ''undefined''))
       ?layouts ?req ''boom'' ''tb'' = Inr (fallback_500 ''boom'')"
    using error_page_trace [where ep = "Some (Inr ''E'')" and raw = "''E''"
        and render = "\<lambda>raw (ctx :: (string \<times> unit pyval) list). Inl (OtherError ''undefined'')"
        and layouts = ?layouts and req = ?req and msg = "''boom''" and trace = "''tb''"
        and is_prod = False and e = "OtherError ''undefined''"]
    by simp
  have d: "custom_general_exception_handler False (Some (Inr ''E''))
       (\<lambda>raw (ctx :: (string \<times> unit pyval) list). Inr raw)
       (\<lambda>args :: unit render_args. Inl (OtherError ''layout'')) ?req ''boom'' ''tb''
       = Inr (fallback_500 ''boom'')"
    using error_page_trace [where ep = "Some (Inr ''E'')" and raw = "''E''"
        and render = "\<lambda>raw (ctx :: (string \<times> unit pyval) list). Inr raw"
        and layouts = "\<lambda>args :: unit render_args. Inl (OtherError ''layout'')"
        and req = ?req and msg = "''boom''" and trace = "''tb''"
        and is_prod = False and e = "OtherError ''layout''" and rc = "''E''"]
    by simp
  have f: "body (fallback_500 ''boom'') = [''<h1>500 - Internal Server Error</h1><p>boom</p>'']"
    using error_page_trace [where msg = "''boom''", THEN conjunct2, THEN conjunct2, THEN conjunct2,
        THEN conjunct2, THEN conjunct2, THEN conjunct2]
    by simp
  show ?thesis by (intro conjI a b c d f)
qed

end
